theory Spec2Isabelle
  imports Main
begin

section \<open>The persistent store of server.ts\<close>

text \<open>
  The store is the SQLite database opened in \<^verbatim>\<open>server.ts\<close> with
  \<^verbatim>\<open>new Database("renovaflow.db")\<close> and created by the \<^verbatim>\<open>db.exec\<close> schema.
  A table is the list of its rows in insertion order. A \<^verbatim>\<open>TEXT\<close> column holds
  \<^verbatim>\<open>NULL\<close> (\<open>None\<close>) or a string, an \<^verbatim>\<open>INTEGER\<close> column an integer. A field of a
  JSON request body is \<open>None\<close> when it is \<^verbatim>\<open>undefined\<close>, which the driver binds as
  \<^verbatim>\<open>NULL\<close>. Strings are byte strings (UTF-8).
\<close>

type_synonym sqltext = "string option"

record user_row =
  u_id :: sqltext
  u_email :: sqltext
  u_password :: sqltext
  u_name :: sqltext
  u_role :: sqltext
  u_remarks :: sqltext
  u_isActive :: int

record project_row =
  p_id :: sqltext
  p_status :: sqltext
  p_estimateDate :: sqltext
  p_orderDate :: sqltext
  p_constructionStartDate :: sqltext
  p_completionDate :: sqltext
  p_paymentDate :: sqltext
  p_title :: sqltext
  p_propertyName :: sqltext
  p_estimateRemarks :: sqltext
  p_orderRemarks :: sqltext
  p_paymentMethod :: sqltext
  p_paymentRemarks :: sqltext
  p_constructionRemarks :: sqltext
  p_billingRemarks :: sqltext
  p_outboundPaymentRemarks :: sqltext
  p_customerName :: sqltext
  p_customerZipCode :: sqltext
  p_customerAddress :: sqltext
  p_customerTel :: sqltext
  p_customerEmail :: sqltext

record staff_row =
  s_id :: sqltext
  s_projectId :: sqltext
  s_name :: sqltext
  s_zipCode :: sqltext
  s_address :: sqltext
  s_tel :: sqltext
  s_email :: sqltext

record billing_row =
  b_id :: sqltext
  b_projectId :: sqltext
  b_name :: sqltext
  b_amount :: "int option"
  b_expectedPaymentDate :: sqltext
  b_isBilled :: int
  b_isPaid :: int

record outbound_row =
  o_id :: sqltext
  o_projectId :: sqltext
  o_recipient :: sqltext
  o_amount :: "int option"
  o_expectedDate :: sqltext
  o_isPaid :: int

record file_row =
  f_id :: sqltext
  f_projectId :: sqltext
  f_name :: sqltext
  f_url :: sqltext

record db =
  users :: "user_row list"
  projects :: "project_row list"
  construction_staff :: "staff_row list"
  billing_items :: "billing_row list"
  outbound_payments :: "outbound_row list"
  files :: "file_row list"

subsection \<open>ProjectStatus (types.ts)\<close>

text \<open>
  The seven string literals of the union type \<^verbatim>\<open>ProjectStatus\<close>, as their UTF-8 bytes,
  under the names the specification gives them: Estimate, Order, Construction, Billing,
  Payment-In, Payment-Out and Cancelled.
\<close>

definition status_Estimate :: string where
  "status_Estimate = [CHR 0xE8, CHR 0xA6, CHR 0x8B, CHR 0xE7, CHR 0xA9, CHR 0x8D]"

definition status_Order :: string where
  "status_Order = [CHR 0xE7, CHR 0x99, CHR 0xBA, CHR 0xE6, CHR 0xB3, CHR 0xA8]"

definition status_Construction :: string where
  "status_Construction = [CHR 0xE6, CHR 0x96, CHR 0xBD, CHR 0xE5, CHR 0xB7, CHR 0xA5]"

definition status_Billing :: string where
  "status_Billing = [CHR 0xE8, CHR 0xAB, CHR 0x8B, CHR 0xE6, CHR 0xB1, CHR 0x82]"

definition status_PaymentIn :: string where
  "status_PaymentIn = [CHR 0xE5, CHR 0x85, CHR 0xA5, CHR 0xE9, CHR 0x87, CHR 0x91]"

definition status_PaymentOut :: string where
  "status_PaymentOut =
     [CHR 0xE6, CHR 0x94, CHR 0xAF, CHR 0xE6, CHR 0x89, CHR 0x95, CHR 0xE3, CHR 0x81, CHR 0x84]"

definition status_Cancelled :: string where
  "status_Cancelled =
     [CHR 0xE3, CHR 0x82, CHR 0xAD, CHR 0xE3, CHR 0x83, CHR 0xA3, CHR 0xE3, CHR 0x83, CHR 0xB3,
      CHR 0xE3, CHR 0x82, CHR 0xBB, CHR 0xE3, CHR 0x83, CHR 0xAB, CHR 0xE6, CHR 0xA1, CHR 0x88,
      CHR 0xE4, CHR 0xBB, CHR 0xB6]"

definition ProjectStatus :: "string list" where
  "ProjectStatus = [status_Estimate, status_Order, status_Construction, status_Billing,
     status_PaymentIn, status_PaymentOut, status_Cancelled]"

subsection \<open>Request bodies and responses\<close>

text \<open>
  The entries of the three child arrays of a project body. A flag of an entry is the
  truthiness of the JSON value (\<^verbatim>\<open>bill.isBilled ? 1 : 0\<close>).
\<close>

record staff_json =
  sj_id :: "string option"
  sj_name :: "string option"
  sj_zipCode :: "string option"
  sj_address :: "string option"
  sj_tel :: "string option"
  sj_email :: "string option"

record billing_json =
  bj_id :: "string option"
  bj_name :: "string option"
  bj_amount :: "int option"
  bj_expectedPaymentDate :: "string option"
  bj_isBilled :: bool
  bj_isPaid :: bool

record outbound_json =
  oj_id :: "string option"
  oj_recipient :: "string option"
  oj_amount :: "int option"
  oj_expectedDate :: "string option"
  oj_isPaid :: bool

text \<open>
  The body of \<^verbatim>\<open>POST /api/projects\<close> and \<^verbatim>\<open>PUT /api/projects/:id\<close>. A child
  collection is \<open>None\<close> when the field is missing or is not an array.
\<close>

record project_json =
  rq_id :: "string option"
  rq_status :: "string option"
  rq_estimateDate :: "string option"
  rq_orderDate :: "string option"
  rq_constructionStartDate :: "string option"
  rq_completionDate :: "string option"
  rq_paymentDate :: "string option"
  rq_title :: "string option"
  rq_propertyName :: "string option"
  rq_estimateRemarks :: "string option"
  rq_orderRemarks :: "string option"
  rq_constructionRemarks :: "string option"
  rq_billingRemarks :: "string option"
  rq_paymentRemarks :: "string option"
  rq_outboundPaymentRemarks :: "string option"
  rq_customerName :: "string option"
  rq_customerZipCode :: "string option"
  rq_customerAddress :: "string option"
  rq_customerTel :: "string option"
  rq_customerEmail :: "string option"
  constructionStaff :: "staff_json list option"
  billingItems :: "billing_json list option"
  outboundPayments :: "outbound_json list option"

text \<open>The body of \<^verbatim>\<open>PATCH /api/projects/:id\<close>.\<close>

record project_patch =
  pt_status :: "string option"
  pt_estimateRemarks :: "string option"
  pt_orderRemarks :: "string option"
  pt_constructionRemarks :: "string option"
  pt_billingRemarks :: "string option"
  pt_paymentRemarks :: "string option"
  pt_outboundPaymentRemarks :: "string option"

text \<open>
  The bodies of the two flag patches: \<open>None\<close> is \<^verbatim>\<open>undefined\<close>, \<open>Some v\<close> carries
  the truthiness of the value sent.
\<close>

record billing_patch =
  bp_isBilled :: "bool option"
  bp_isPaid :: "bool option"

record outbound_patch =
  op_isPaid :: "bool option"

record user_json =
  uj_id :: "string option"
  uj_email :: "string option"
  uj_password :: "string option"
  uj_name :: "string option"
  uj_role :: "string option"
  uj_remarks :: "string option"
  uj_isActive :: "bool option"

text \<open>The uploaded file of a multipart request, as the handler reads it.\<close>

record upload =
  up_fileId :: string
  up_originalname :: string
  up_filename :: string

text \<open>The constraint failures the driver throws, with SQLite's message.\<close>

datatype error = UniqueFailed string | ForeignKeyFailed

fun message :: "error \<Rightarrow> string" where
  "message (UniqueFailed col) = ''UNIQUE constraint failed: '' @ col"
| "message ForeignKeyFailed = ''FOREIGN KEY constraint failed''"

datatype body =
    SuccessTrue
  | Error string
  | FullProject project_row "staff_row list" "billing_row list" "outbound_row list" "file_row list"
  | FileInfo string string string
  | OtherBody

text \<open>
  A handler answers with a status code and a JSON body, or lets the exception escape
  (\<open>Unhandled\<close>) where it has no \<^verbatim>\<open>try\<close>. \<open>OtherBody\<close> is the body
  of an answer that comes from none of the handlers below (a page, a list, an error page).
\<close>

datatype response = Response nat body | Unhandled error

subsection \<open>Statements\<close>

text \<open>\<^verbatim>\<open>UPDATE t SET ... WHERE cond\<close>.\<close>

definition update_where :: "('r \<Rightarrow> bool) \<Rightarrow> ('r \<Rightarrow> 'r) \<Rightarrow> 'r list \<Rightarrow> 'r list" where
  "update_where c f rows = map (\<lambda>r. if c r then f r else r) rows"

text \<open>\<^verbatim>\<open>DELETE FROM t WHERE cond\<close>.\<close>

definition delete_where :: "('r \<Rightarrow> bool) \<Rightarrow> 'r list \<Rightarrow> 'r list" where
  "delete_where c rows = filter (\<lambda>r. \<not> c r) rows"

text \<open>
  A \<^verbatim>\<open>PRIMARY KEY\<close> or \<^verbatim>\<open>UNIQUE\<close> column refuses a value that a stored row
  has already; \<^verbatim>\<open>NULL\<close> never conflicts.
\<close>

definition conflicts :: "sqltext \<Rightarrow> sqltext list \<Rightarrow> bool" where
  "conflicts k ks = (k \<noteq> None \<and> k \<in> set ks)"

text \<open>
  \<^verbatim>\<open>FOREIGN KEY(projectId) REFERENCES projects(id)\<close>: a child row with a non-null
  \<^verbatim>\<open>projectId\<close> needs a project row of that id (the driver opens every connection
  with foreign keys enforced).
\<close>

definition fk_ok :: "db \<Rightarrow> sqltext \<Rightarrow> bool" where
  "fk_ok d pid = (pid = None \<or> pid \<in> set (map p_id (projects d)))"

definition insertUser :: "user_row \<Rightarrow> db \<Rightarrow> error + db" where
  "insertUser r d =
     (if conflicts (u_id r) (map u_id (users d)) then Inl (UniqueFailed ''users.id'')
      else if conflicts (u_email r) (map u_email (users d)) then Inl (UniqueFailed ''users.email'')
      else Inr (d\<lparr>users := users d @ [r]\<rparr>))"

definition insertProject :: "project_row \<Rightarrow> db \<Rightarrow> error + db" where
  "insertProject r d =
     (if conflicts (p_id r) (map p_id (projects d)) then Inl (UniqueFailed ''projects.id'')
      else Inr (d\<lparr>projects := projects d @ [r]\<rparr>))"

definition insertStaff :: "staff_row \<Rightarrow> db \<Rightarrow> error + db" where
  "insertStaff r d =
     (if conflicts (s_id r) (map s_id (construction_staff d))
      then Inl (UniqueFailed ''construction_staff.id'')
      else if \<not> fk_ok d (s_projectId r) then Inl ForeignKeyFailed
      else Inr (d\<lparr>construction_staff := construction_staff d @ [r]\<rparr>))"

definition insertBilling :: "billing_row \<Rightarrow> db \<Rightarrow> error + db" where
  "insertBilling r d =
     (if conflicts (b_id r) (map b_id (billing_items d))
      then Inl (UniqueFailed ''billing_items.id'')
      else if \<not> fk_ok d (b_projectId r) then Inl ForeignKeyFailed
      else Inr (d\<lparr>billing_items := billing_items d @ [r]\<rparr>))"

definition insertOutbound :: "outbound_row \<Rightarrow> db \<Rightarrow> error + db" where
  "insertOutbound r d =
     (if conflicts (o_id r) (map o_id (outbound_payments d))
      then Inl (UniqueFailed ''outbound_payments.id'')
      else if \<not> fk_ok d (o_projectId r) then Inl ForeignKeyFailed
      else Inr (d\<lparr>outbound_payments := outbound_payments d @ [r]\<rparr>))"

definition insertFile :: "file_row \<Rightarrow> db \<Rightarrow> error + db" where
  "insertFile r d =
     (if conflicts (f_id r) (map f_id (files d)) then Inl (UniqueFailed ''files.id'')
      else if \<not> fk_ok d (f_projectId r) then Inl ForeignKeyFailed
      else Inr (d\<lparr>files := files d @ [r]\<rparr>))"

definition deleteStaff :: "string \<Rightarrow> db \<Rightarrow> db" where
  "deleteStaff pid d =
     d\<lparr>construction_staff := delete_where (\<lambda>r. s_projectId r = Some pid) (construction_staff d)\<rparr>"

definition deleteBilling :: "string \<Rightarrow> db \<Rightarrow> db" where
  "deleteBilling pid d =
     d\<lparr>billing_items := delete_where (\<lambda>r. b_projectId r = Some pid) (billing_items d)\<rparr>"

definition deleteOutbound :: "string \<Rightarrow> db \<Rightarrow> db" where
  "deleteOutbound pid d =
     d\<lparr>outbound_payments := delete_where (\<lambda>r. o_projectId r = Some pid) (outbound_payments d)\<rparr>"

text \<open>
  \<^verbatim>\<open>DELETE FROM projects WHERE id = ?\<close>. When a project row goes, \<^verbatim>\<open>ON DELETE
  CASCADE\<close> removes the rows of the four child tables that reference it; when no row
  matches, nothing is deleted anywhere.
\<close>

definition deleteProjectRow :: "string \<Rightarrow> db \<Rightarrow> db" where
  "deleteProjectRow pid d =
     (if Some pid \<in> set (map p_id (projects d))
      then d\<lparr>projects := delete_where (\<lambda>p. p_id p = Some pid) (projects d),
             construction_staff := delete_where (\<lambda>r. s_projectId r = Some pid) (construction_staff d),
             billing_items := delete_where (\<lambda>r. b_projectId r = Some pid) (billing_items d),
             outbound_payments := delete_where (\<lambda>r. o_projectId r = Some pid) (outbound_payments d),
             files := delete_where (\<lambda>r. f_projectId r = Some pid) (files d)\<rparr>
      else d)"

text \<open>
  A block of statements that may throw: it returns the state it reached and the exception,
  if any. \<open>for_each\<close> is \<^verbatim>\<open>for (const x of xs) { ... }\<close>, left at the first exception.
\<close>

fun for_each :: "('j \<Rightarrow> 's \<Rightarrow> 's \<times> error option) \<Rightarrow> 'j list \<Rightarrow> 's \<Rightarrow> 's \<times> error option" where
  "for_each step [] s = (s, None)"
| "for_each step (x # xs) s =
     (case step x s of
        (s', None) \<Rightarrow> for_each step xs s'
      | (s', Some e) \<Rightarrow> (s', Some e))"

definition and_then :: "'s \<times> error option \<Rightarrow> ('s \<Rightarrow> 's \<times> error option) \<Rightarrow> 's \<times> error option" where
  "and_then r f = (case r of (s, None) \<Rightarrow> f s | (s, Some e) \<Rightarrow> (s, Some e))"

text \<open>
  \<^verbatim>\<open>db.transaction(fn)()\<close>: the block runs between \<^verbatim>\<open>BEGIN\<close> and \<^verbatim>\<open>COMMIT\<close>; when
  it throws, \<^verbatim>\<open>ROLLBACK\<close> restores the store as it was and the exception is thrown on.
\<close>

definition transaction :: "(db \<Rightarrow> db \<times> error option) \<Rightarrow> db \<Rightarrow> db \<times> error option" where
  "transaction block d =
     (case block d of
        (d', None) \<Rightarrow> (d', None)
      | (d', Some e) \<Rightarrow> (d, Some e))"

text \<open>\<^verbatim>\<open>stmt.run(...)\<close> inside a block: a statement that fails changes nothing and throws.\<close>

definition run :: "('s \<Rightarrow> error + 's) \<Rightarrow> 's \<Rightarrow> 's \<times> error option" where
  "run st s = (case st s of Inl e \<Rightarrow> (s, Some e) | Inr s' \<Rightarrow> (s', None))"

section \<open>The request handlers of server.ts\<close>

fun ok :: "response \<Rightarrow> bool" where
  "ok (Response code b) = (200 \<le> code \<and> code < 300)"
| "ok (Unhandled e) = False"

definition flag :: "bool \<Rightarrow> int" where
  "flag v = (if v then 1 else 0)"

subsection \<open>POST /api/projects\<close>

definition new_project :: "project_json \<Rightarrow> project_row" where
  "new_project b =
     \<lparr>p_id = rq_id b, p_status = rq_status b, p_estimateDate = rq_estimateDate b,
      p_orderDate = rq_orderDate b, p_constructionStartDate = rq_constructionStartDate b,
      p_completionDate = rq_completionDate b, p_paymentDate = rq_paymentDate b,
      p_title = rq_title b, p_propertyName = rq_propertyName b,
      p_estimateRemarks = rq_estimateRemarks b, p_orderRemarks = rq_orderRemarks b,
      p_paymentMethod = None, p_paymentRemarks = rq_paymentRemarks b,
      p_constructionRemarks = rq_constructionRemarks b, p_billingRemarks = rq_billingRemarks b,
      p_outboundPaymentRemarks = rq_outboundPaymentRemarks b,
      p_customerName = rq_customerName b, p_customerZipCode = rq_customerZipCode b,
      p_customerAddress = rq_customerAddress b, p_customerTel = rq_customerTel b,
      p_customerEmail = rq_customerEmail b\<rparr>"

definition staff_row_of :: "sqltext \<Rightarrow> sqltext \<Rightarrow> staff_json \<Rightarrow> staff_row" where
  "staff_row_of i pid staff =
     \<lparr>s_id = i, s_projectId = pid, s_name = sj_name staff, s_zipCode = sj_zipCode staff,
      s_address = sj_address staff, s_tel = sj_tel staff, s_email = sj_email staff\<rparr>"

definition billing_row_of :: "sqltext \<Rightarrow> sqltext \<Rightarrow> billing_json \<Rightarrow> int \<Rightarrow> int \<Rightarrow> billing_row" where
  "billing_row_of i pid bill billed paid =
     \<lparr>b_id = i, b_projectId = pid, b_name = bj_name bill, b_amount = bj_amount bill,
      b_expectedPaymentDate = bj_expectedPaymentDate bill, b_isBilled = billed, b_isPaid = paid\<rparr>"

definition outbound_row_of :: "sqltext \<Rightarrow> sqltext \<Rightarrow> outbound_json \<Rightarrow> int \<Rightarrow> outbound_row" where
  "outbound_row_of i pid payment paid =
     \<lparr>o_id = i, o_projectId = pid, o_recipient = oj_recipient payment,
      o_amount = oj_amount payment, o_expectedDate = oj_expectedDate payment, o_isPaid = paid\<rparr>"

definition post_projects_block :: "project_json \<Rightarrow> db \<Rightarrow> db \<times> error option" where
  "post_projects_block b d =
     and_then (run (insertProject (new_project b)) d) (\<lambda>d.
     and_then (case constructionStaff b of
                 None \<Rightarrow> (d, None)
               | Some ss \<Rightarrow>
                   for_each (\<lambda>staff. run (insertStaff (staff_row_of (sj_id staff) (rq_id b) staff))) ss d) (\<lambda>d.
     and_then (case billingItems b of
                 None \<Rightarrow> (d, None)
               | Some bs \<Rightarrow>
                   for_each (\<lambda>bill. run (insertBilling (billing_row_of (bj_id bill) (rq_id b) bill 0 0))) bs d) (\<lambda>d.
     (case outboundPayments b of
        None \<Rightarrow> (d, None)
      | Some ps \<Rightarrow>
          for_each (\<lambda>payment. run (insertOutbound (outbound_row_of (oj_id payment) (rq_id b) payment 0))) ps d))))"

definition post_projects :: "db \<Rightarrow> project_json \<Rightarrow> db \<times> response" where
  "post_projects d b =
     (case transaction (post_projects_block b) d of
        (d', None) \<Rightarrow> (d', Response 200 SuccessTrue)
      | (d', Some e) \<Rightarrow> (d', Response 500 (Error (message e))))"

subsection \<open>GET /api/projects/:id\<close>

definition get_project :: "db \<Rightarrow> string \<Rightarrow> response" where
  "get_project d pid =
     (case find (\<lambda>p. p_id p = Some pid) (projects d) of
        None \<Rightarrow> Response 404 (Error ''Project not found'')
      | Some project \<Rightarrow>
          Response 200 (FullProject project
            (filter (\<lambda>r. s_projectId r = Some pid) (construction_staff d))
            (filter (\<lambda>r. b_projectId r = Some pid) (billing_items d))
            (filter (\<lambda>r. o_projectId r = Some pid) (outbound_payments d))
            (filter (\<lambda>r. f_projectId r = Some pid) (files d))))"

subsection \<open>PATCH /api/projects/:id\<close>

definition update_project :: "string \<Rightarrow> (project_row \<Rightarrow> project_row) \<Rightarrow> db \<Rightarrow> db" where
  "update_project pid f d = d\<lparr>projects := update_where (\<lambda>p. p_id p = Some pid) f (projects d)\<rparr>"

definition patch_project :: "db \<Rightarrow> string \<Rightarrow> project_patch \<Rightarrow> db \<times> response" where
  "patch_project d pid b =
     (let d = (case pt_status b of None \<Rightarrow> d
               | Some v \<Rightarrow> update_project pid (\<lambda>p. p\<lparr>p_status := Some v\<rparr>) d);
          d = (case pt_estimateRemarks b of None \<Rightarrow> d
               | Some v \<Rightarrow> update_project pid (\<lambda>p. p\<lparr>p_estimateRemarks := Some v\<rparr>) d);
          d = (case pt_orderRemarks b of None \<Rightarrow> d
               | Some v \<Rightarrow> update_project pid (\<lambda>p. p\<lparr>p_orderRemarks := Some v\<rparr>) d);
          d = (case pt_constructionRemarks b of None \<Rightarrow> d
               | Some v \<Rightarrow> update_project pid (\<lambda>p. p\<lparr>p_constructionRemarks := Some v\<rparr>) d);
          d = (case pt_billingRemarks b of None \<Rightarrow> d
               | Some v \<Rightarrow> update_project pid (\<lambda>p. p\<lparr>p_billingRemarks := Some v\<rparr>) d);
          d = (case pt_paymentRemarks b of None \<Rightarrow> d
               | Some v \<Rightarrow> update_project pid (\<lambda>p. p\<lparr>p_paymentRemarks := Some v\<rparr>) d);
          d = (case pt_outboundPaymentRemarks b of None \<Rightarrow> d
               | Some v \<Rightarrow> update_project pid (\<lambda>p. p\<lparr>p_outboundPaymentRemarks := Some v\<rparr>) d)
      in (d, Response 200 SuccessTrue))"

subsection \<open>PATCH /api/billing_items/:id and PATCH /api/outbound_payments/:id\<close>

definition patch_billing_item :: "db \<Rightarrow> string \<Rightarrow> billing_patch \<Rightarrow> db \<times> response" where
  "patch_billing_item d iid b =
     (let d = (case bp_isBilled b of None \<Rightarrow> d
               | Some v \<Rightarrow> d\<lparr>billing_items :=
                   update_where (\<lambda>r. b_id r = Some iid) (\<lambda>r. r\<lparr>b_isBilled := flag v\<rparr>) (billing_items d)\<rparr>);
          d = (case bp_isPaid b of None \<Rightarrow> d
               | Some v \<Rightarrow> d\<lparr>billing_items :=
                   update_where (\<lambda>r. b_id r = Some iid) (\<lambda>r. r\<lparr>b_isPaid := flag v\<rparr>) (billing_items d)\<rparr>)
      in (d, Response 200 SuccessTrue))"

definition patch_outbound_payment :: "db \<Rightarrow> string \<Rightarrow> outbound_patch \<Rightarrow> db \<times> response" where
  "patch_outbound_payment d iid b =
     (let d = (case op_isPaid b of None \<Rightarrow> d
               | Some v \<Rightarrow> d\<lparr>outbound_payments :=
                   update_where (\<lambda>r. o_id r = Some iid) (\<lambda>r. r\<lparr>o_isPaid := flag v\<rparr>) (outbound_payments d)\<rparr>)
      in (d, Response 200 SuccessTrue))"

subsection \<open>PUT /api/projects/:id\<close>

text \<open>\<^verbatim>\<open>updateProject\<close>: nineteen columns are set on the rows whose id is the path's.\<close>

definition updateProject :: "string \<Rightarrow> project_json \<Rightarrow> db \<Rightarrow> db" where
  "updateProject pid b d =
     update_project pid (\<lambda>p. p\<lparr>p_status := rq_status b, p_estimateDate := rq_estimateDate b,
       p_orderDate := rq_orderDate b, p_constructionStartDate := rq_constructionStartDate b,
       p_completionDate := rq_completionDate b, p_paymentDate := rq_paymentDate b,
       p_title := rq_title b, p_propertyName := rq_propertyName b,
       p_estimateRemarks := rq_estimateRemarks b, p_orderRemarks := rq_orderRemarks b,
       p_constructionRemarks := rq_constructionRemarks b, p_billingRemarks := rq_billingRemarks b,
       p_paymentRemarks := rq_paymentRemarks b,
       p_outboundPaymentRemarks := rq_outboundPaymentRemarks b,
       p_customerName := rq_customerName b, p_customerZipCode := rq_customerZipCode b,
       p_customerAddress := rq_customerAddress b, p_customerTel := rq_customerTel b,
       p_customerEmail := rq_customerEmail b\<rparr>) d"

text \<open>
  \<^verbatim>\<open>x.id || Date.now().toString() + Math.random()\<close>. An id that is missing or the
  empty string is falsy, and a string is generated. The generated strings are an input of
  the request: \<open>fresh n\<close> is the one that the \<open>n\<close>-th evaluation returns, and the state of
  the block counts the evaluations.
\<close>

definition id_or_fresh :: "(nat \<Rightarrow> string) \<Rightarrow> string option \<Rightarrow> nat \<Rightarrow> string \<times> nat" where
  "id_or_fresh fresh i n =
     (case i of
        None \<Rightarrow> (fresh n, Suc n)
      | Some s \<Rightarrow> if s = [] then (fresh n, Suc n) else (s, n))"

definition put_staff :: "(nat \<Rightarrow> string) \<Rightarrow> string \<Rightarrow> staff_json \<Rightarrow> db \<times> nat \<Rightarrow> (db \<times> nat) \<times> error option" where
  "put_staff fresh pid staff s =
     (case s of (d, n) \<Rightarrow>
        (case id_or_fresh fresh (sj_id staff) n of (i, n') \<Rightarrow>
           (case insertStaff (staff_row_of (Some i) (Some pid) staff) d of
              Inl e \<Rightarrow> ((d, n'), Some e)
            | Inr d' \<Rightarrow> ((d', n'), None))))"

definition put_billing :: "(nat \<Rightarrow> string) \<Rightarrow> string \<Rightarrow> billing_json \<Rightarrow> db \<times> nat \<Rightarrow> (db \<times> nat) \<times> error option" where
  "put_billing fresh pid bill s =
     (case s of (d, n) \<Rightarrow>
        (case id_or_fresh fresh (bj_id bill) n of (i, n') \<Rightarrow>
           (case insertBilling (billing_row_of (Some i) (Some pid) bill
                   (flag (bj_isBilled bill)) (flag (bj_isPaid bill))) d of
              Inl e \<Rightarrow> ((d, n'), Some e)
            | Inr d' \<Rightarrow> ((d', n'), None))))"

definition put_outbound :: "(nat \<Rightarrow> string) \<Rightarrow> string \<Rightarrow> outbound_json \<Rightarrow> db \<times> nat \<Rightarrow> (db \<times> nat) \<times> error option" where
  "put_outbound fresh pid payment s =
     (case s of (d, n) \<Rightarrow>
        (case id_or_fresh fresh (oj_id payment) n of (i, n') \<Rightarrow>
           (case insertOutbound (outbound_row_of (Some i) (Some pid) payment
                   (flag (oj_isPaid payment))) d of
              Inl e \<Rightarrow> ((d, n'), Some e)
            | Inr d' \<Rightarrow> ((d', n'), None))))"

definition on_store :: "(db \<Rightarrow> db) \<Rightarrow> db \<times> nat \<Rightarrow> db \<times> nat" where
  "on_store f s = (f (fst s), snd s)"

text \<open>
  The three parts of the block after \<^verbatim>\<open>updateProject.run\<close>: the rows of the project
  are deleted, then the supplied array, if it is one, is inserted entry by entry.
\<close>

definition replace_staff :: "(nat \<Rightarrow> string) \<Rightarrow> string \<Rightarrow> project_json \<Rightarrow> db \<times> nat \<Rightarrow> (db \<times> nat) \<times> error option" where
  "replace_staff fresh pid b s =
     (let s = on_store (deleteStaff pid) s
      in (case constructionStaff b of
            None \<Rightarrow> (s, None)
          | Some ss \<Rightarrow> for_each (put_staff fresh pid) ss s))"

definition replace_billing :: "(nat \<Rightarrow> string) \<Rightarrow> string \<Rightarrow> project_json \<Rightarrow> db \<times> nat \<Rightarrow> (db \<times> nat) \<times> error option" where
  "replace_billing fresh pid b s =
     (let s = on_store (deleteBilling pid) s
      in (case billingItems b of
            None \<Rightarrow> (s, None)
          | Some bs \<Rightarrow> for_each (put_billing fresh pid) bs s))"

definition replace_outbound :: "(nat \<Rightarrow> string) \<Rightarrow> string \<Rightarrow> project_json \<Rightarrow> db \<times> nat \<Rightarrow> (db \<times> nat) \<times> error option" where
  "replace_outbound fresh pid b s =
     (let s = on_store (deleteOutbound pid) s
      in (case outboundPayments b of
            None \<Rightarrow> (s, None)
          | Some ps \<Rightarrow> for_each (put_outbound fresh pid) ps s))"

definition put_project_steps :: "(nat \<Rightarrow> string) \<Rightarrow> string \<Rightarrow> project_json \<Rightarrow> db \<times> nat \<Rightarrow> (db \<times> nat) \<times> error option" where
  "put_project_steps fresh pid b s =
     and_then (replace_staff fresh pid b (on_store (updateProject pid b) s)) (\<lambda>s.
     and_then (replace_billing fresh pid b s) (\<lambda>s.
     replace_outbound fresh pid b s))"

definition put_project_block :: "(nat \<Rightarrow> string) \<Rightarrow> string \<Rightarrow> project_json \<Rightarrow> db \<Rightarrow> db \<times> error option" where
  "put_project_block fresh pid b d =
     (case put_project_steps fresh pid b (d, 0) of (s, e) \<Rightarrow> (fst s, e))"

definition put_project :: "(nat \<Rightarrow> string) \<Rightarrow> db \<Rightarrow> string \<Rightarrow> project_json \<Rightarrow> db \<times> response" where
  "put_project fresh d pid b =
     (case transaction (put_project_block fresh pid b) d of
        (d', None) \<Rightarrow> (d', Response 200 SuccessTrue)
      | (d', Some e) \<Rightarrow> (d', Response 500 (Error (message e))))"

subsection \<open>DELETE /api/projects/:id\<close>

definition delete_project :: "db \<Rightarrow> string \<Rightarrow> db \<times> response" where
  "delete_project d pid = (deleteProjectRow pid d, Response 200 SuccessTrue)"

subsection \<open>Files\<close>

definition post_file :: "db \<Rightarrow> string \<Rightarrow> upload option \<Rightarrow> db \<times> response" where
  "post_file d pid file =
     (case file of
        None \<Rightarrow> (d, Response 400 (Error ''No file uploaded''))
      | Some f \<Rightarrow>
          (let fileUrl = ''/uploads/'' @ up_filename f in
           case insertFile \<lparr>f_id = Some (up_fileId f), f_projectId = Some pid,
                   f_name = Some (up_originalname f), f_url = Some fileUrl\<rparr> d of
             Inl e \<Rightarrow> (d, Unhandled e)
           | Inr d' \<Rightarrow> (d', Response 200 (FileInfo (up_fileId f) (up_originalname f) fileUrl))))"

definition delete_file :: "db \<Rightarrow> string \<Rightarrow> db \<times> response" where
  "delete_file d fid =
     (case find (\<lambda>r. f_id r = Some fid) (files d) of
        None \<Rightarrow> (d, Response 200 SuccessTrue)
      | Some file \<Rightarrow>
          (d\<lparr>files := delete_where (\<lambda>r. f_id r = Some fid) (files d)\<rparr>, Response 200 SuccessTrue))"

subsection \<open>Users\<close>

definition post_users :: "db \<Rightarrow> user_json \<Rightarrow> db \<times> response" where
  "post_users d b =
     (case insertUser \<lparr>u_id = uj_id b, u_email = uj_email b, u_password = uj_password b,
             u_name = uj_name b, u_role = uj_role b, u_remarks = uj_remarks b, u_isActive = 1\<rparr> d of
        Inr d' \<Rightarrow> (d', Response 200 SuccessTrue)
      | Inl e \<Rightarrow> (d, Response 400 (Error ''Email already exists'')))"

definition set_opt :: "'v option \<Rightarrow> 'c \<Rightarrow> ('v \<Rightarrow> 'c) \<Rightarrow> 'c" where
  "set_opt v old f = (case v of None \<Rightarrow> old | Some x \<Rightarrow> f x)"

text \<open>
  \<^verbatim>\<open>PUT /api/users/:id\<close> builds one \<^verbatim>\<open>UPDATE\<close> from the fields present. The
  statement fails when it would give two rows the same email.
\<close>

definition put_user :: "db \<Rightarrow> string \<Rightarrow> user_json \<Rightarrow> db \<times> response" where
  "put_user d uid b =
     (if uj_email b = None \<and> uj_password b = None \<and> uj_name b = None \<and> uj_role b = None
         \<and> uj_remarks b = None \<and> uj_isActive b = None
      then (d, Response 200 SuccessTrue)
      else
        (let hit = filter (\<lambda>r. u_id r = Some uid) (users d);
             rest = filter (\<lambda>r. u_id r \<noteq> Some uid) (users d)
         in if uj_email b \<noteq> None \<and> hit \<noteq> []
               \<and> (uj_email b \<in> set (map u_email rest) \<or> 1 < length hit)
            then (d, Unhandled (UniqueFailed ''users.email''))
            else (d\<lparr>users := update_where (\<lambda>r. u_id r = Some uid)
                      (\<lambda>r. r\<lparr>u_email := set_opt (uj_email b) (u_email r) Some,
                              u_password := set_opt (uj_password b) (u_password r) Some,
                              u_name := set_opt (uj_name b) (u_name r) Some,
                              u_role := set_opt (uj_role b) (u_role r) Some,
                              u_remarks := set_opt (uj_remarks b) (u_remarks r) Some,
                              u_isActive := set_opt (uj_isActive b) (u_isActive r) flag\<rparr>)
                      (users d)\<rparr>,
                  Response 200 SuccessTrue)))"

definition delete_user :: "db \<Rightarrow> string \<Rightarrow> db \<times> response" where
  "delete_user d uid =
     (d\<lparr>users := delete_where (\<lambda>r. u_id r = Some uid) (users d)\<rparr>, Response 200 SuccessTrue)"

section \<open>The client handlers of App.tsx (ProjectDetail)\<close>

text \<open>
  The handlers of the project detail view build the path of each request by putting an
  identifier into it as it is, unencoded: \<^verbatim>\<open>/api/billing_items/\<close> followed by
  \<^verbatim>\<open>itemId\<close>, \<^verbatim>\<open>/api/projects/\<close> followed by \<^verbatim>\<open>projectId\<close>. What becomes of such a path on its way (the URL
  parsing of the browser, the percent-decoding and the route matching of the server) is
  a parameter of the handlers, the \<open>router\<close>: for a \<^verbatim>\<open>GET\<close> and for a \<^verbatim>\<open>PATCH\<close>
  it tells the route the path ends at, with the value of \<^verbatim>\<open>:id\<close> there, or that the
  request is answered elsewhere, with which status code. The three \<^verbatim>\<open>PATCH\<close> routes
  and the one \<^verbatim>\<open>GET\<close> route with an \<^verbatim>\<open>:id\<close> are those of server.ts.
\<close>

datatype get_route = GetProjectsId string | GetElsewhere nat

datatype patch_route =
    PatchProjectsId string
  | PatchBillingItemsId string
  | PatchOutboundPaymentsId string
  | PatchElsewhere nat

record router =
  on_get :: "string \<Rightarrow> get_route"
  on_patch :: "string \<Rightarrow> patch_route"

text \<open>
  The two JSON bodies the handlers send with a \<^verbatim>\<open>PATCH\<close>: \<^verbatim>\<open>updates\<close> (the flags of
  a billing item) and \<^verbatim>\<open>{ status: newStatus }\<close>; and what each of the three handlers
  reads from them (a field the body does not have is \<^verbatim>\<open>undefined\<close>).
\<close>

datatype patch_json = Flags billing_patch | Status string

fun project_fields :: "patch_json \<Rightarrow> project_patch" where
  "project_fields (Status s) =
     \<lparr>pt_status = Some s, pt_estimateRemarks = None, pt_orderRemarks = None,
      pt_constructionRemarks = None, pt_billingRemarks = None, pt_paymentRemarks = None,
      pt_outboundPaymentRemarks = None\<rparr>"
| "project_fields (Flags u) =
     \<lparr>pt_status = None, pt_estimateRemarks = None, pt_orderRemarks = None,
      pt_constructionRemarks = None, pt_billingRemarks = None, pt_paymentRemarks = None,
      pt_outboundPaymentRemarks = None\<rparr>"

fun billing_fields :: "patch_json \<Rightarrow> billing_patch" where
  "billing_fields (Flags u) = u"
| "billing_fields (Status s) = \<lparr>bp_isBilled = None, bp_isPaid = None\<rparr>"

fun outbound_fields :: "patch_json \<Rightarrow> outbound_patch" where
  "outbound_fields (Flags u) = \<lparr>op_isPaid = bp_isPaid u\<rparr>"
| "outbound_fields (Status s) = \<lparr>op_isPaid = None\<rparr>"

text \<open>\<^verbatim>\<open>fetch(path, { method: 'PATCH', body })\<close> and \<^verbatim>\<open>fetch(path)\<close>.\<close>

definition fetch_patch :: "router \<Rightarrow> db \<Rightarrow> string \<Rightarrow> patch_json \<Rightarrow> db \<times> response" where
  "fetch_patch net d path b =
     (case on_patch net path of
        PatchProjectsId k \<Rightarrow> patch_project d k (project_fields b)
      | PatchBillingItemsId k \<Rightarrow> patch_billing_item d k (billing_fields b)
      | PatchOutboundPaymentsId k \<Rightarrow> patch_outbound_payment d k (outbound_fields b)
      | PatchElsewhere code \<Rightarrow> (d, Response code OtherBody))"

definition fetch_get :: "router \<Rightarrow> db \<Rightarrow> string \<Rightarrow> response" where
  "fetch_get net d path =
     (case on_get net path of
        GetProjectsId k \<Rightarrow> get_project d k
      | GetElsewhere code \<Rightarrow> Response code OtherBody)"

text \<open>
  The handlers, as the requests they send to the server one after the other; the result
  is the store afterwards. A response that is not \<^verbatim>\<open>ok\<close>, or whose body is not a
  project, ends the handler.
\<close>

definition handleStatusUpdate :: "router \<Rightarrow> db \<Rightarrow> string \<Rightarrow> string \<Rightarrow> db" where
  "handleStatusUpdate net d projectId newStatus =
     fst (fetch_patch net d (''/api/projects/'' @ projectId) (Status newStatus))"

definition handleBillingItemUpdate :: "router \<Rightarrow> db \<Rightarrow> string \<Rightarrow> string \<Rightarrow> billing_patch \<Rightarrow> db" where
  "handleBillingItemUpdate net d projectId itemId updates =
     (case fetch_patch net d (''/api/billing_items/'' @ itemId) (Flags updates) of (d, res) \<Rightarrow>
        if ok res then
          (case fetch_get net d (''/api/projects/'' @ projectId) of
             Response code (FullProject project staff billing outbound fs) \<Rightarrow>
               if 200 \<le> code \<and> code < 300 then
                 (if bp_isBilled updates \<noteq> None then
                    (let allBilled = list_all (\<lambda>b. b_isBilled b \<noteq> 0) billing
                     in if allBilled \<and> p_status project = Some status_Billing
                        then handleStatusUpdate net d projectId status_PaymentIn
                        else d)
                  else d)
               else d
           | _ \<Rightarrow> d)
        else d)"

section \<open>Sequences of requests\<close>

datatype api_call =
    PostProjects project_json
  | PatchProject string project_patch
  | PatchBillingItem string billing_patch
  | PatchOutboundPayment string outbound_patch
  | PutProject "nat \<Rightarrow> string" string project_json
  | DeleteProject string
  | PostFile string "upload option"
  | DeleteFile string
  | PostUsers user_json
  | PutUser string user_json
  | DeleteUser string

fun handle :: "db \<Rightarrow> api_call \<Rightarrow> db \<times> response" where
  "handle d (PostProjects b) = post_projects d b"
| "handle d (PatchProject pid b) = patch_project d pid b"
| "handle d (PatchBillingItem iid b) = patch_billing_item d iid b"
| "handle d (PatchOutboundPayment iid b) = patch_outbound_payment d iid b"
| "handle d (PutProject fresh pid b) = put_project fresh d pid b"
| "handle d (DeleteProject pid) = delete_project d pid"
| "handle d (PostFile pid file) = post_file d pid file"
| "handle d (DeleteFile fid) = delete_file d fid"
| "handle d (PostUsers b) = post_users d b"
| "handle d (PutUser uid b) = put_user d uid b"
| "handle d (DeleteUser uid) = delete_user d uid"

fun serve :: "db \<Rightarrow> api_call list \<Rightarrow> db" where
  "serve d [] = d"
| "serve d (c # cs) = serve (fst (handle d c)) cs"

section \<open>Reading the store\<close>

text \<open>
  The status column of the project a request for \<open>pid\<close> finds
  (\<^verbatim>\<open>SELECT * FROM projects WHERE id = ?\<close>, first row): \<open>None\<close> when there is no such
  project.
\<close>

definition stored_status :: "db \<Rightarrow> string \<Rightarrow> sqltext option" where
  "stored_status d pid = map_option p_status (find (\<lambda>p. p_id p = Some pid) (projects d))"

definition staff_of :: "db \<Rightarrow> string \<Rightarrow> staff_row list" where
  "staff_of d pid = filter (\<lambda>r. s_projectId r = Some pid) (construction_staff d)"

definition billing_of :: "db \<Rightarrow> string \<Rightarrow> billing_row list" where
  "billing_of d pid = filter (\<lambda>r. b_projectId r = Some pid) (billing_items d)"



section \<open>The statements of the full-replace block\<close>

text \<open>
  The block of \<^verbatim>\<open>PUT /api/projects/:id\<close> as the list of the statements it runs, in
  the order of the source: \<^verbatim>\<open>updateProject.run\<close>, \<^verbatim>\<open>deleteStaff.run\<close>, one
  \<^verbatim>\<open>insertStaff.run\<close> for each entry of the staff array, \<^verbatim>\<open>deleteBilling.run\<close>, one
  \<^verbatim>\<open>insertBilling.run\<close> for each billing entry, \<^verbatim>\<open>deleteOutbound.run\<close>, one
  \<^verbatim>\<open>insertOutbound.run\<close> for each outbound entry. The updates and deletes never fail.
\<close>

definition always :: "(db \<Rightarrow> db) \<Rightarrow> db \<times> nat \<Rightarrow> (db \<times> nat) \<times> error option" where
  "always f s = (on_store f s, None)"

definition put_project_statements ::
  "(nat \<Rightarrow> string) \<Rightarrow> string \<Rightarrow> project_json \<Rightarrow> (db \<times> nat \<Rightarrow> (db \<times> nat) \<times> error option) list" where
  "put_project_statements fresh pid b =
     [always (updateProject pid b), always (deleteStaff pid)]
     @ (case constructionStaff b of None \<Rightarrow> [] | Some ss \<Rightarrow> map (put_staff fresh pid) ss)
     @ [always (deleteBilling pid)]
     @ (case billingItems b of None \<Rightarrow> [] | Some bs \<Rightarrow> map (put_billing fresh pid) bs)
     @ [always (deleteOutbound pid)]
     @ (case outboundPayments b of None \<Rightarrow> [] | Some ps \<Rightarrow> map (put_outbound fresh pid) ps)"

text \<open>Running statements one after the other, up to the first that fails.\<close>

definition run_all ::
  "(db \<times> nat \<Rightarrow> (db \<times> nat) \<times> error option) list \<Rightarrow> db \<times> nat \<Rightarrow> (db \<times> nat) \<times> error option" where
  "run_all sts s = for_each (\<lambda>st. st) sts s"

section \<open>Sample data\<close>

text \<open>
  The store after start-up: the schema and the seeded administrator (whose name is the
  UTF-8 of the source's literal).
\<close>

definition seedUser :: user_row where
  "seedUser = \<lparr>u_id = Some ''1'', u_email = Some ''admin@example.com'',
     u_password = Some ''password123'',
     u_name = Some [CHR 0xE7, CHR 0xAE, CHR 0xA1, CHR 0xE7, CHR 0x90, CHR 0x86, CHR 0xE8, CHR 0x80, CHR 0x85],
     u_role = Some ''admin'', u_remarks = None, u_isActive = 1\<rparr>"

definition initial_db :: db where
  "initial_db = \<lparr>users = [seedUser], projects = [], construction_staff = [],
     billing_items = [], outbound_payments = [], files = []\<rparr>"

definition project_with :: "string \<Rightarrow> string \<Rightarrow> project_row" where
  "project_with pid st =
     \<lparr>p_id = Some pid, p_status = Some st, p_estimateDate = Some ''2026-01-10'',
      p_orderDate = None, p_constructionStartDate = None,
      p_completionDate = Some ''2026-03-31'', p_paymentDate = None,
      p_title = Some ''Kitchen'', p_propertyName = None,
      p_estimateRemarks = None, p_orderRemarks = None, p_paymentMethod = None,
      p_paymentRemarks = None, p_constructionRemarks = None, p_billingRemarks = None,
      p_outboundPaymentRemarks = None, p_customerName = Some ''Sato'',
      p_customerZipCode = None, p_customerAddress = None, p_customerTel = None,
      p_customerEmail = None\<rparr>"

definition staff_with :: "string \<Rightarrow> string \<Rightarrow> string \<Rightarrow> staff_row" where
  "staff_with i pid n = \<lparr>s_id = Some i, s_projectId = Some pid, s_name = Some n,
     s_zipCode = None, s_address = None, s_tel = None, s_email = None\<rparr>"

definition billing_with :: "string \<Rightarrow> string \<Rightarrow> int \<Rightarrow> int \<Rightarrow> billing_row" where
  "billing_with i pid billed paid = \<lparr>b_id = Some i, b_projectId = Some pid,
     b_name = Some ''Invoice'', b_amount = Some 50000, b_expectedPaymentDate = None,
     b_isBilled = billed, b_isPaid = paid\<rparr>"

definition outbound_with :: "string \<Rightarrow> string \<Rightarrow> int \<Rightarrow> outbound_row" where
  "outbound_with i pid paid = \<lparr>o_id = Some i, o_projectId = Some pid,
     o_recipient = Some ''Builder'', o_amount = Some 30000, o_expectedDate = None,
     o_isPaid = paid\<rparr>"

text \<open>
  A store with project \<open>P1\<close> in status Billing (two staff, billing items \<open>B1\<close> billed
  and \<open>B2\<close> unbilled, one paid outbound payment, one file) and project \<open>P2\<close> in
  status Estimate with one unbilled billing item.
\<close>

definition demo_db :: db where
  "demo_db = \<lparr>users = [seedUser],
     projects = [project_with ''P1'' status_Billing, project_with ''P2'' status_Estimate],
     construction_staff = [staff_with ''S1'' ''P1'' ''Abe'', staff_with ''S2'' ''P1'' ''Ito''],
     billing_items = [billing_with ''B1'' ''P1'' 1 0, billing_with ''B2'' ''P1'' 0 0,
                      billing_with ''B3'' ''P2'' 0 0],
     outbound_payments = [outbound_with ''O1'' ''P1'' 1],
     files = [\<lparr>f_id = Some ''1700000000000'', f_projectId = Some ''P1'',
               f_name = Some ''plan.pdf'', f_url = Some ''/uploads/1700000000000-plan.pdf''\<rparr>]\<rparr>"

definition no_patch :: project_patch where
  "no_patch = \<lparr>pt_status = None, pt_estimateRemarks = None, pt_orderRemarks = None,
     pt_constructionRemarks = None, pt_billingRemarks = None, pt_paymentRemarks = None,
     pt_outboundPaymentRemarks = None\<rparr>"

definition new_user :: "string \<Rightarrow> string \<Rightarrow> user_json" where
  "new_user i e = \<lparr>uj_id = Some i, uj_email = Some e, uj_password = Some ''secret'',
     uj_name = Some ''Staff'', uj_role = Some ''staff'', uj_remarks = None, uj_isActive = None\<rparr>"

definition staff_entry :: "string option \<Rightarrow> string \<Rightarrow> staff_json" where
  "staff_entry i n = \<lparr>sj_id = i, sj_name = Some n, sj_zipCode = None, sj_address = None,
     sj_tel = None, sj_email = None\<rparr>"



definition body_with ::
  "string \<Rightarrow> staff_json list \<Rightarrow> billing_json list \<Rightarrow> outbound_json list \<Rightarrow> project_json" where
  "body_with st ss bs ps =
     \<lparr>rq_id = None, rq_status = Some st, rq_estimateDate = Some ''2026-01-10'',
      rq_orderDate = None, rq_constructionStartDate = None,
      rq_completionDate = Some ''2026-03-31'', rq_paymentDate = None,
      rq_title = Some ''Kitchen'', rq_propertyName = None,
      rq_estimateRemarks = None, rq_orderRemarks = None, rq_constructionRemarks = None,
      rq_billingRemarks = None, rq_paymentRemarks = None, rq_outboundPaymentRemarks = None,
      rq_customerName = Some ''Sato'', rq_customerZipCode = None, rq_customerAddress = None,
      rq_customerTel = None, rq_customerEmail = None,
      constructionStaff = Some ss, billingItems = Some bs, outboundPayments = Some ps\<rparr>"

text \<open>A run of generated identifiers: a time stamp followed by a fraction.\<close>

definition sample_fresh :: "nat \<Rightarrow> string" where
  "sample_fresh n = ''17000000000000.'' @ replicate (Suc n) (CHR ''7'')"

text \<open>
  A router for the examples. It cuts the path at the first \<open>#\<close> or \<open>?\<close> (fragment and
  query are no part of the path the server matches) and matches what is left against the
  patterns of the routes; the identifier must be one non-empty segment. It is meant for
  identifiers without percent signs, backslashes and dot segments only.
\<close>

fun after_prefix :: "string \<Rightarrow> string \<Rightarrow> string option" where
  "after_prefix [] s = Some s"
| "after_prefix (p # ps) [] = None"
| "after_prefix (p # ps) (c # cs) = (if p = c then after_prefix ps cs else None)"

definition path_of :: "string \<Rightarrow> string" where
  "path_of url = takeWhile (\<lambda>c. c \<noteq> CHR ''#'' \<and> c \<noteq> CHR ''?'') url"

definition one_segment :: "string \<Rightarrow> bool" where
  "one_segment k = (k \<noteq> [] \<and> CHR ''/'' \<notin> set k)"

definition id_under :: "string \<Rightarrow> string \<Rightarrow> string option" where
  "id_under prefix url =
     (case after_prefix prefix (path_of url) of
        None \<Rightarrow> None
      | Some k \<Rightarrow> if one_segment k then Some k else None)"

definition sample_router :: router where
  "sample_router =
     \<lparr>on_get = (\<lambda>url. case id_under ''/api/projects/'' url of
                   Some k \<Rightarrow> GetProjectsId k | None \<Rightarrow> GetElsewhere 404),
      on_patch = (\<lambda>url. case id_under ''/api/projects/'' url of
                   Some k \<Rightarrow> PatchProjectsId k
                 | None \<Rightarrow>
                     (case id_under ''/api/billing_items/'' url of
                        Some k \<Rightarrow> PatchBillingItemsId k
                      | None \<Rightarrow>
                          (case id_under ''/api/outbound_payments/'' url of
                             Some k \<Rightarrow> PatchOutboundPaymentsId k
                           | None \<Rightarrow> PatchElsewhere 404)))\<rparr>"

text \<open>
  The sample store with the second billing item of \<open>P1\<close> stored under an identifier that
  contains a \<open>#\<close>.
\<close>

definition hash_db :: db where
  "hash_db = demo_db\<lparr>billing_items :=
     [billing_with ''B1'' ''P1'' 1 0, billing_with ''B2#x'' ''P1'' 0 0]\<rparr>"

section \<open>Conditions on requests\<close>

text \<open>A status column holds one of the seven values of \<^verbatim>\<open>ProjectStatus\<close>.\<close>

definition valid_status :: "sqltext \<Rightarrow> bool" where
  "valid_status s = (case s of None \<Rightarrow> False | Some v \<Rightarrow> v \<in> set ProjectStatus)"

definition statuses_valid :: "db \<Rightarrow> bool" where
  "statuses_valid d = list_all (\<lambda>p. valid_status (p_status p)) (projects d)"

text \<open>
  A request that sends no status outside the seven values: a creation and a full-replace
  update carry one of the seven values (both store the status field of their body, also
  when the body has none), a patch carries one of the seven values or no status. This
  is what the type of the client's \<^verbatim>\<open>Project.status\<close> and of \<^verbatim>\<open>handleStatusUpdate\<close>
  promises.
\<close>

fun sends_valid_status :: "api_call \<Rightarrow> bool" where
  "sends_valid_status (PostProjects b) = valid_status (rq_status b)"
| "sends_valid_status (PatchProject pid b) =
     (case pt_status b of None \<Rightarrow> True | Some v \<Rightarrow> valid_status (Some v))"
| "sends_valid_status (PutProject fresh pid b) = valid_status (rq_status b)"
| "sends_valid_status _ = True"






section \<open>The children a full-replace update is to store\<close>








text \<open>
  The identifiers \<open>id_or_fresh\<close> yields along a list of entries, from the \<open>n\<close>-th
  generated one on (used in the proofs about the insert loops).
\<close>

fun assign :: "(nat \<Rightarrow> string) \<Rightarrow> nat \<Rightarrow> string option list \<Rightarrow> string list" where
  "assign fresh n [] = []"
| "assign fresh n (i # ids) =
     (case id_or_fresh fresh i n of (k, n') \<Rightarrow> k # assign fresh n' ids)"

section \<open>Helper lemmas on statements\<close>

lemma find_update_where:
  assumes "\<And>r. Q (f r) = Q r"
  shows "find Q (update_where c f rows) = map_option (\<lambda>r. if c r then f r else r) (find Q rows)"
  using assms by (induction rows) (simp_all add: update_where_def)

lemma stored_status_update_project:
  assumes "\<And>p. p_id (f p) = p_id p"
  shows "stored_status (update_project pid f d) pid' =
         map_option (\<lambda>p. if p_id p = Some pid then p_status (f p) else p_status p)
           (find (\<lambda>p. p_id p = Some pid') (projects d))"
  using assms
  by (simp add: stored_status_def update_project_def find_update_where option.map_comp comp_def if_distrib)

lemma stored_status_update_other:
  assumes "\<And>p. p_id (f p) = p_id p" and "\<And>p. p_status (f p) = p_status p"
  shows "stored_status (update_project pid f d) pid' = stored_status d pid'"
proof -
  have "find (\<lambda>p. p_id p = Some pid') (update_where (\<lambda>p. p_id p = Some pid) f (projects d))
        = map_option (\<lambda>r. if p_id r = Some pid then f r else r) (find (\<lambda>p. p_id p = Some pid') (projects d))"
    by (rule find_update_where) (simp add: assms(1))
  then show ?thesis
    by (cases "find (\<lambda>p. p_id p = Some pid') (projects d)")
       (simp_all add: stored_status_def update_project_def assms(2))
qed

lemma stored_status_set:
  "stored_status (update_project pid (\<lambda>p. p\<lparr>p_status := Some v\<rparr>) d) pid =
     map_option (\<lambda>s. Some v) (stored_status d pid)"
proof -
  have step: "find (\<lambda>p. p_id p = Some pid)
          (update_where (\<lambda>p. p_id p = Some pid) (\<lambda>p. p\<lparr>p_status := Some v\<rparr>) (projects d))
        = map_option (\<lambda>r. if p_id r = Some pid then r\<lparr>p_status := Some v\<rparr> else r)
            (find (\<lambda>p. p_id p = Some pid) (projects d))"
    by (rule find_update_where) simp
  show ?thesis
  proof (cases "find (\<lambda>p. p_id p = Some pid) (projects d)")
    case None
    with step show ?thesis by (simp add: stored_status_def update_project_def)
  next
    case (Some x)
    then have "p_id x = Some pid" by (auto simp: find_Some_iff)
    with Some step show ?thesis by (simp add: stored_status_def update_project_def)
  qed
qed

lemma snd_patch_project: "snd (patch_project d pid b) = Response 200 SuccessTrue"
  by (simp add: patch_project_def Let_def)

lemma patch_project_status:
  "stored_status (fst (patch_project d pid b)) pid =
     (case pt_status b of None \<Rightarrow> stored_status d pid
      | Some v \<Rightarrow> map_option (\<lambda>s. Some v) (stored_status d pid))"
  by (simp add: patch_project_def Let_def stored_status_update_other stored_status_set
        split: option.split)

section \<open>C6: the status-set operation is unrestricted\<close>

text \<open>
  Claim C6. For every stored project, whatever its current status and whatever the target
  status, \<^verbatim>\<open>PATCH /api/projects/:id\<close> with a status answers \<^verbatim>\<open>{success: true}\<close> and
  the stored status of the project is the target afterwards, whatever remark fields the
  same body carries: there is no adjacency or ordering check.
\<close>

theorem advance_sets_status:
  assumes "stored_status d pid = Some current"
  shows "snd (patch_project d pid (b\<lparr>pt_status := Some target\<rparr>)) = Response 200 SuccessTrue
       \<and> stored_status (fst (patch_project d pid (b\<lparr>pt_status := Some target\<rparr>))) pid = Some (Some target)"
  using assms by (simp add: snd_patch_project patch_project_status)

theorem advance_sets_status_witness:
  "stored_status demo_db ''P1'' = Some (Some status_Billing)
   \<and> snd (patch_project demo_db ''P1'' (no_patch\<lparr>pt_status := Some status_Estimate\<rparr>))
       = Response 200 SuccessTrue
   \<and> stored_status (fst (patch_project demo_db ''P1'' (no_patch\<lparr>pt_status := Some status_Estimate\<rparr>))) ''P1''
       = Some (Some status_Estimate)"
proof -
  have h: "stored_status demo_db ''P1'' = Some (Some status_Billing)"
    by (simp add: stored_status_def demo_db_def project_with_def)
  from advance_sets_status [where b = no_patch and target = status_Estimate, OF h] h show ?thesis by simp
qed

section \<open>C9: a patch to a project that is not stored\<close>

lemma stored_status_None_iff:
  "stored_status d pid = None \<longleftrightarrow> (\<forall>p\<in>set (projects d). p_id p \<noteq> Some pid)"
  by (auto simp: stored_status_def find_None_iff)


lemma update_where_no_match:
  assumes "\<And>r. r \<in> set rows \<Longrightarrow> \<not> c r"
  shows "update_where c f rows = rows"
  using assms by (induction rows) (simp_all add: update_where_def)

lemma update_project_absent:
  assumes "stored_status d pid = None"
  shows "update_project pid f d = d"
proof -
  have "update_where (\<lambda>p. p_id p = Some pid) f (projects d) = projects d"
    using assms by (intro update_where_no_match) (auto simp: stored_status_None_iff)
  then show ?thesis by (simp add: update_project_def)
qed

text \<open>
  Claim C9 says that a partial-field patch addressed to a project identifier that is not in
  the store is reported as not found. The handler never looks the project up: at the
  sample store, patching the status of the unknown \<open>P9\<close> answers
  \<^verbatim>\<open>{success: true}\<close>.
\<close>

theorem patch_missing_project_counterexample:
  "stored_status demo_db ''P9'' = None
   \<and> snd (patch_project demo_db ''P9'' (no_patch\<lparr>pt_status := Some status_Order\<rparr>))
       = Response 200 SuccessTrue
   \<and> snd (patch_project demo_db ''P9'' (no_patch\<lparr>pt_status := Some status_Order\<rparr>))
       \<noteq> Response 404 (Error ''Project not found'')"
  by (simp add: stored_status_def demo_db_def project_with_def snd_patch_project)

text \<open>
  Claim C9, amended. A partial-field patch (status or remark fields) addressed to a project
  identifier that is not in the store changes nothing in the store, and the caller is
  given the same success response as for a stored project.
\<close>

theorem patch_missing_project_silent:
  assumes "stored_status d pid = None"
  shows "patch_project d pid b = (d, Response 200 SuccessTrue)"
  using assms by (simp add: patch_project_def Let_def update_project_absent split: option.split)

theorem patch_missing_project_silent_witness:
  "stored_status demo_db ''P9'' = None
   \<and> patch_project demo_db ''P9'' (no_patch\<lparr>pt_status := Some status_Order\<rparr>)
       = (demo_db, Response 200 SuccessTrue)"
proof -
  have h: "stored_status demo_db ''P9'' = None"
    by (simp add: stored_status_def demo_db_def project_with_def)
  from patch_missing_project_silent [OF h] h show ?thesis by simp
qed

section \<open>C8: a second user with a stored email\<close>

text \<open>
  Claim C8. When the email of a user-creation request is the email of a stored user, the
  insert fails, the handler answers 400 with \<^verbatim>\<open>{error: "Email already exists"}\<close> (a
  rejected request; the exception does not escape), and the store, with the existing
  user, is as it was.
\<close>

theorem duplicate_email_rejected:
  assumes "u \<in> set (users d)" and "u_email u = Some e" and "uj_email b = Some e"
  shows "post_users d b = (d, Response 400 (Error ''Email already exists''))"
proof -
  have "Some e \<in> set (map u_email (users d))"
    using assms(1,2) by force
  then show ?thesis
    using assms(3) by (simp add: post_users_def insertUser_def conflicts_def)
qed

theorem duplicate_email_rejected_witness:
  "seedUser \<in> set (users demo_db) \<and> u_email seedUser = Some ''admin@example.com''
   \<and> uj_email (new_user ''2'' ''admin@example.com'') = Some ''admin@example.com''
   \<and> post_users demo_db (new_user ''2'' ''admin@example.com'')
       = (demo_db, Response 400 (Error ''Email already exists''))"
proof -
  have h1: "seedUser \<in> set (users demo_db)" by (simp add: demo_db_def)
  have h2: "u_email seedUser = Some ''admin@example.com''" by (simp add: seedUser_def)
  have h3: "uj_email (new_user ''2'' ''admin@example.com'') = Some ''admin@example.com''"
    by (simp add: new_user_def)
  from duplicate_email_rejected [OF h1 h2 h3] h1 h2 h3 show ?thesis by simp
qed

section \<open>C5: deleting a project\<close>





section \<open>The full-replace update and the projects table\<close>

lemma for_each_keeps:
  assumes "\<And>x s. g (fst (step x s)) = g s"
  shows "g (fst (for_each step xs s)) = g s"
proof (induction xs arbitrary: s)
  case Nil
  show ?case by simp
next
  case (Cons x xs)
  obtain s' e where st: "step x s = (s', e)" by (cases "step x s")
  have "g s' = g s" using assms [of x s] st by simp
  then show ?case using Cons.IH [of s'] st by (cases e) simp_all
qed

lemma and_then_keeps:
  assumes "\<And>s. g (fst (f s)) = g s"
  shows "g (fst (and_then r f)) = g (fst r)"
proof (cases r)
  case (Pair s e)
  then show ?thesis using assms [of s] by (cases e) (simp_all add: and_then_def)
qed

lemma projects_put_staff: "projects (fst (fst (put_staff fresh pid x s))) = projects (fst s)"
  by (cases s) (simp add: put_staff_def insertStaff_def split: prod.split)

lemma projects_put_billing: "projects (fst (fst (put_billing fresh pid x s))) = projects (fst s)"
  by (cases s) (simp add: put_billing_def insertBilling_def split: prod.split)

lemma projects_put_outbound: "projects (fst (fst (put_outbound fresh pid x s))) = projects (fst s)"
  by (cases s) (simp add: put_outbound_def insertOutbound_def split: prod.split)

lemma projects_replace_staff:
  "projects (fst (fst (replace_staff fresh pid b s))) = projects (fst s)"
  by (cases "constructionStaff b")
     (simp_all add: replace_staff_def Let_def on_store_def deleteStaff_def
        for_each_keeps [where g = "\<lambda>s. projects (fst s)"] projects_put_staff)

lemma projects_replace_billing:
  "projects (fst (fst (replace_billing fresh pid b s))) = projects (fst s)"
  by (cases "billingItems b")
     (simp_all add: replace_billing_def Let_def on_store_def deleteBilling_def
        for_each_keeps [where g = "\<lambda>s. projects (fst s)"] projects_put_billing)

lemma projects_replace_outbound:
  "projects (fst (fst (replace_outbound fresh pid b s))) = projects (fst s)"
  by (cases "outboundPayments b")
     (simp_all add: replace_outbound_def Let_def on_store_def deleteOutbound_def
        for_each_keeps [where g = "\<lambda>s. projects (fst s)"] projects_put_outbound)

lemma projects_put_project_steps:
  "projects (fst (fst (put_project_steps fresh pid b s))) = projects (updateProject pid b (fst s))"
proof -
  let ?g = "\<lambda>s::db \<times> nat. projects (fst s)"
  have inner: "\<And>s. ?g (fst (and_then (replace_billing fresh pid b s) (replace_outbound fresh pid b)))
      = ?g s"
    by (simp add: and_then_keeps [where g = ?g] projects_replace_outbound projects_replace_billing)
  have "?g (fst (put_project_steps fresh pid b s))
      = ?g (fst (replace_staff fresh pid b (on_store (updateProject pid b) s)))"
    unfolding put_project_steps_def by (rule and_then_keeps [where g = ?g]) (rule inner)
  then show ?thesis by (simp add: projects_replace_staff on_store_def)
qed

lemma put_project_cases:
  "put_project fresh d pid b =
     (case snd (put_project_block fresh pid b d) of
        None \<Rightarrow> (fst (put_project_block fresh pid b d), Response 200 SuccessTrue)
      | Some e \<Rightarrow> (d, Response 500 (Error (message e))))"
  by (simp add: put_project_def transaction_def split: prod.split option.split)

lemma projects_put_project:
  "projects (fst (put_project fresh d pid b)) = projects d
   \<or> projects (fst (put_project fresh d pid b)) = projects (updateProject pid b d)"
proof (cases "snd (put_project_block fresh pid b d)")
  case None
  have "projects (fst (put_project_block fresh pid b d)) = projects (updateProject pid b d)"
    using projects_put_project_steps [of fresh pid b "(d, 0)"]
    by (simp add: put_project_block_def split_beta)
  with None show ?thesis by (simp add: put_project_cases)
next
  case (Some e)
  then show ?thesis by (simp add: put_project_cases)
qed

section \<open>C10: the full-replace update is no upsert\<close>

text \<open>
  Claim C10. When the identifier of \<^verbatim>\<open>PUT /api/projects/:id\<close> matches no stored
  project, the projects table after the request is the table before it: no row is created,
  whether the transaction commits or rolls back.
\<close>

theorem put_project_no_upsert:
  assumes "stored_status d pid = None"
  shows "projects (fst (put_project fresh d pid b)) = projects d"
proof -
  have "updateProject pid b d = d"
    using assms by (simp add: updateProject_def update_project_absent)
  with projects_put_project [of fresh d pid b] show ?thesis by auto
qed

theorem put_project_no_upsert_witness:
  "stored_status demo_db ''P9'' = None
   \<and> projects (fst (put_project sample_fresh demo_db ''P9'' (body_with status_Order [] [] [])))
       = projects demo_db"
proof -
  have h: "stored_status demo_db ''P9'' = None"
    by (simp add: stored_status_def demo_db_def project_with_def)
  from put_project_no_upsert [OF h] h show ?thesis by simp
qed

section \<open>C3: a failing full-replace update rolls back\<close>

lemma for_each_append:
  "for_each step (xs @ ys) s = and_then (for_each step xs s) (for_each step ys)"
proof (induction xs arbitrary: s)
  case Nil
  show ?case by (simp add: and_then_def)
next
  case (Cons x xs)
  show ?case
  proof (cases "step x s")
    case (Pair s' e)
    then show ?thesis using Cons.IH [of s'] by (cases e) (simp_all add: and_then_def)
  qed
qed

lemma run_all_append: "run_all (xs @ ys) s = and_then (run_all xs s) (run_all ys)"
  unfolding run_all_def by (simp add: for_each_append)

lemma run_all_append_fun: "run_all (xs @ ys) = (\<lambda>s. and_then (run_all xs s) (run_all ys))"
  by (rule ext) (rule run_all_append)

lemma run_all_map: "run_all (map f xs) s = for_each f xs s"
  unfolding run_all_def by (induction xs arbitrary: s) simp_all

lemma run_all_always: "run_all (always f # sts) s = run_all sts (on_store f s)"
  by (simp add: run_all_def always_def)

lemma run_all_Nil: "run_all [] s = (s, None)"
  by (simp add: run_all_def)

lemma replace_staff_statements:
  "replace_staff fresh pid b s =
     run_all (always (deleteStaff pid) #
       (case constructionStaff b of None \<Rightarrow> [] | Some ss \<Rightarrow> map (put_staff fresh pid) ss)) s"
  by (cases "constructionStaff b")
     (simp_all add: replace_staff_def Let_def run_all_always run_all_map run_all_Nil)

lemma replace_billing_statements:
  "replace_billing fresh pid b s =
     run_all (always (deleteBilling pid) #
       (case billingItems b of None \<Rightarrow> [] | Some bs \<Rightarrow> map (put_billing fresh pid) bs)) s"
  by (cases "billingItems b")
     (simp_all add: replace_billing_def Let_def run_all_always run_all_map run_all_Nil)

lemma replace_outbound_statements:
  "replace_outbound fresh pid b =
     run_all (always (deleteOutbound pid) #
       (case outboundPayments b of None \<Rightarrow> [] | Some ps \<Rightarrow> map (put_outbound fresh pid) ps))"
  by (rule ext, cases "outboundPayments b")
     (simp_all add: replace_outbound_def Let_def run_all_always run_all_map run_all_Nil)

text \<open>The block is its statements, run in order.\<close>

lemma put_project_steps_statements:
  "put_project_steps fresh pid b s = run_all (put_project_statements fresh pid b) s"
proof -
  let ?staff = "always (deleteStaff pid) #
       (case constructionStaff b of None \<Rightarrow> [] | Some ss \<Rightarrow> map (put_staff fresh pid) ss)"
  let ?billing = "always (deleteBilling pid) #
       (case billingItems b of None \<Rightarrow> [] | Some bs \<Rightarrow> map (put_billing fresh pid) bs)"
  let ?outbound = "always (deleteOutbound pid) #
       (case outboundPayments b of None \<Rightarrow> [] | Some ps \<Rightarrow> map (put_outbound fresh pid) ps)"
  have "put_project_statements fresh pid b
      = always (updateProject pid b) # (?staff @ (?billing @ ?outbound))"
    by (simp add: put_project_statements_def)
  then have "run_all (put_project_statements fresh pid b) s
      = run_all (?staff @ (?billing @ ?outbound)) (on_store (updateProject pid b) s)"
    by (simp only: run_all_always)
  also have "\<dots> = and_then (run_all ?staff (on_store (updateProject pid b) s))
      (\<lambda>s. and_then (run_all ?billing s) (run_all ?outbound))"
    by (simp only: run_all_append run_all_append_fun)
  also have "\<dots> = put_project_steps fresh pid b s"
    unfolding put_project_steps_def
    by (simp only: replace_staff_statements replace_billing_statements
          replace_outbound_statements [symmetric])
  finally show ?thesis by simp
qed

lemma run_all_failure:
  assumes "run_all before s = (s1, None)" and "failing s1 = (s2, Some e)"
  shows "run_all (before @ failing # rest) s = (s2, Some e)"
  using assms by (simp add: run_all_append) (simp add: and_then_def run_all_def)

text \<open>
  Claim C3 says that the caller of a failed full-replace update receives a generic server
  error rather than a raw internal error. The handler's \<^verbatim>\<open>catch\<close> sends
  \<^verbatim>\<open>error.message\<close>: at the sample store, a staff array with the same id twice is
  answered with the driver's message for the primary key, and children for the unknown
  project \<open>P9\<close> with its message for the foreign key.
\<close>

theorem put_project_message_counterexample:
  "snd (put_project sample_fresh demo_db ''P1''
          (body_with status_Order
             [staff_entry (Some ''S9'') ''New'', staff_entry (Some ''S9'') ''Dup''] [] []))
     = Response 500 (Error ''UNIQUE constraint failed: construction_staff.id'')
   \<and> snd (put_project sample_fresh demo_db ''P9''
          (body_with status_Order [staff_entry (Some ''S9'') ''New''] [] []))
     = Response 500 (Error ''FOREIGN KEY constraint failed'')"
  by code_simp

text \<open>
  Claim C3, amended. When a statement inside the transaction of
  \<^verbatim>\<open>PUT /api/projects/:id\<close> fails with an error \<open>e\<close>, after the statements before it
  have run, the store after the request is the store before it (the project row and the
  child rows alike: nothing the earlier statements did remains), and the caller receives
  status 500 with a JSON body that carries the message of \<open>e\<close>; the exception does not
  escape the handler.
\<close>

theorem put_project_rollback:
  assumes "put_project_statements fresh pid b = before @ failing # rest"
    and "run_all before (d, 0) = (s1, None)"
    and "failing s1 = (s2, Some e)"
  shows "put_project fresh d pid b = (d, Response 500 (Error (message e)))"
proof -
  have "put_project_steps fresh pid b (d, 0) = (s2, Some e)"
    unfolding put_project_steps_statements assms(1)
    using assms(2,3) by (rule run_all_failure)
  then have "snd (put_project_block fresh pid b d) = Some e"
    by (simp add: put_project_block_def)
  then show ?thesis by (simp add: put_project_cases)
qed

theorem put_project_rollback_witness:
  "staff_of (fst (fst (run_all
        [always (updateProject ''P1'' (body_with status_Order
           [staff_entry (Some ''S9'') ''New'', staff_entry (Some ''S9'') ''Dup''] [] [])),
         always (deleteStaff ''P1''),
         put_staff sample_fresh ''P1'' (staff_entry (Some ''S9'') ''New'')] (demo_db, 0)))) ''P1''
     = [staff_with ''S9'' ''P1'' ''New'']
   \<and> staff_of demo_db ''P1'' = [staff_with ''S1'' ''P1'' ''Abe'', staff_with ''S2'' ''P1'' ''Ito'']
   \<and> put_project sample_fresh demo_db ''P1''
          (body_with status_Order
             [staff_entry (Some ''S9'') ''New'', staff_entry (Some ''S9'') ''Dup''] [] [])
     = (demo_db, Response 500 (Error ''UNIQUE constraint failed: construction_staff.id''))"
proof -
  let ?b = "body_with status_Order
             [staff_entry (Some ''S9'') ''New'', staff_entry (Some ''S9'') ''Dup''] [] []"
  let ?before = "[always (updateProject ''P1'' ?b), always (deleteStaff ''P1''),
         put_staff sample_fresh ''P1'' (staff_entry (Some ''S9'') ''New'')]"
  let ?rest = "[always (deleteBilling ''P1''), always (deleteOutbound ''P1'')]"
  let ?s1 = "fst (run_all ?before (demo_db, 0))"
  have split: "put_project_statements sample_fresh ''P1'' ?b
      = ?before @ put_staff sample_fresh ''P1'' (staff_entry (Some ''S9'') ''Dup'') # ?rest"
    by (simp add: put_project_statements_def body_with_def)
  have "snd (run_all ?before (demo_db, 0)) = None" by code_simp
  then have ran: "run_all ?before (demo_db, 0) = (?s1, None)"
    by (simp add: prod_eq_iff)
  have "snd (put_staff sample_fresh ''P1'' (staff_entry (Some ''S9'') ''Dup'') ?s1)
      = Some (UniqueFailed ''construction_staff.id'')"
    by code_simp
  then have fails: "put_staff sample_fresh ''P1'' (staff_entry (Some ''S9'') ''Dup'') ?s1
      = (fst (put_staff sample_fresh ''P1'' (staff_entry (Some ''S9'') ''Dup'') ?s1),
         Some (UniqueFailed ''construction_staff.id''))"
    by (simp add: prod_eq_iff)
  have partial: "staff_of (fst ?s1) ''P1'' = [staff_with ''S9'' ''P1'' ''New'']"
    by code_simp
  have was: "staff_of demo_db ''P1'' = [staff_with ''S1'' ''P1'' ''Abe'', staff_with ''S2'' ''P1'' ''Ito'']"
    by code_simp
  from put_project_rollback [OF split ran fails] partial was show ?thesis by simp
qed

section \<open>C1: the automatic advance from Billing to Payment-In\<close>

lemma patch_billing_item_store:
  "fst (patch_billing_item d iid b) =
     d\<lparr>billing_items := map (\<lambda>r. if b_id r = Some iid
            then r\<lparr>b_isBilled := (case bp_isBilled b of None \<Rightarrow> b_isBilled r | Some v \<Rightarrow> flag v),
                   b_isPaid := (case bp_isPaid b of None \<Rightarrow> b_isPaid r | Some v \<Rightarrow> flag v)\<rparr>
            else r) (billing_items d)\<rparr>"
proof -
  have same: "map (\<lambda>r. if b_id r = Some iid then r else r) (billing_items d) = billing_items d"
    by (induction "billing_items d") simp_all
  show ?thesis
    by (cases "bp_isBilled b"; cases "bp_isPaid b")
       (simp_all add: patch_billing_item_def Let_def update_where_def comp_def if_distrib same
          cong: if_cong)
qed

lemma all_billed_after_patch:
  "list_all (\<lambda>r. b_isBilled r \<noteq> 0)
     (filter (\<lambda>r. b_projectId r = Some pid)
        (map (\<lambda>r. if b_id r = Some iid then r\<lparr>b_isBilled := flag True, b_isPaid := x r\<rparr> else r) rows))
   \<longleftrightarrow> (\<forall>r\<in>set (filter (\<lambda>r. b_projectId r = Some pid) rows).
          b_id r \<noteq> Some iid \<longrightarrow> b_isBilled r \<noteq> 0)"
  by (induction rows) (auto simp: flag_def)

lemma handleStatusUpdate_status:
  assumes "on_patch net (''/api/projects/'' @ pid) = PatchProjectsId pid"
  shows "stored_status (handleStatusUpdate net d pid st) pid
       = map_option (\<lambda>s. Some st) (stored_status d pid)"
  using assms by (simp add: handleStatusUpdate_def fetch_patch_def patch_project_status)

lemma get_project_found:
  assumes "find (\<lambda>p. p_id p = Some pid) (projects d) = Some p"
  shows "get_project d pid = Response 200 (FullProject p
            (filter (\<lambda>r. s_projectId r = Some pid) (construction_staff d))
            (filter (\<lambda>r. b_projectId r = Some pid) (billing_items d))
            (filter (\<lambda>r. o_projectId r = Some pid) (outbound_payments d))
            (filter (\<lambda>r. f_projectId r = Some pid) (files d)))"
  using assms by (simp add: get_project_def)

lemma handleBillingItemUpdate_found:
  assumes item: "on_patch net (''/api/billing_items/'' @ iid) = PatchBillingItemsId iid"
    and proj: "on_get net (''/api/projects/'' @ pid) = GetProjectsId pid"
    and found: "find (\<lambda>p. p_id p = Some pid) (projects d) = Some p"
  shows "handleBillingItemUpdate net d pid iid u =
     (let d1 = fst (patch_billing_item d iid u)
      in if bp_isBilled u \<noteq> None
            \<and> list_all (\<lambda>r. b_isBilled r \<noteq> 0) (filter (\<lambda>r. b_projectId r = Some pid) (billing_items d1))
            \<and> p_status p = Some status_Billing
         then handleStatusUpdate net d1 pid status_PaymentIn else d1)"
proof -
  define ipath where "ipath = ''/api/billing_items/'' @ iid"
  define ppath where "ppath = ''/api/projects/'' @ pid"
  obtain d1 res where pb: "patch_billing_item d iid u = (d1, res)"
    by (cases "patch_billing_item d iid u")
  have res: "res = Response 200 SuccessTrue"
    using pb by (simp add: patch_billing_item_def Let_def)
  have sent: "fetch_patch net d ipath (Flags u) = (d1, res)"
    using item pb unfolding ipath_def by (simp add: fetch_patch_def)
  have "projects d1 = projects d"
    using pb patch_billing_item_store [of d iid u] by simp
  then have "find (\<lambda>p. p_id p = Some pid) (projects d1) = Some p"
    using found by simp
  then have "get_project d1 pid = Response 200 (FullProject p
            (filter (\<lambda>r. s_projectId r = Some pid) (construction_staff d1))
            (filter (\<lambda>r. b_projectId r = Some pid) (billing_items d1))
            (filter (\<lambda>r. o_projectId r = Some pid) (outbound_payments d1))
            (filter (\<lambda>r. f_projectId r = Some pid) (files d1)))"
    by (rule get_project_found)
  then have gp: "fetch_get net d1 ppath = Response 200 (FullProject p
            (filter (\<lambda>r. s_projectId r = Some pid) (construction_staff d1))
            (filter (\<lambda>r. b_projectId r = Some pid) (billing_items d1))
            (filter (\<lambda>r. o_projectId r = Some pid) (outbound_payments d1))
            (filter (\<lambda>r. f_projectId r = Some pid) (files d1)))"
    using proj unfolding ppath_def by (simp add: fetch_get_def)
  show ?thesis
    unfolding handleBillingItemUpdate_def handleStatusUpdate_def
      ipath_def [symmetric] ppath_def [symmetric]
    by (auto simp add: sent gp pb res Let_def)
qed

lemma patch_billing_item_status:
  "stored_status (fst (patch_billing_item d iid u)) q = stored_status d q"
  by (simp add: patch_billing_item_store stored_status_def)

text \<open>
  Claim C1 says that setting the billed flag of the last unbilled item of a project in
  status Billing makes the status Payment-In. The advance is not the server's: at the
  sample store, where \<open>P1\<close> is in Billing and \<open>B2\<close> is its only unbilled item,
  \<^verbatim>\<open>PATCH /api/billing_items/B2\<close> with \<^verbatim>\<open>isBilled: true\<close> leaves every item billed
  and the status Billing. Nor does the client's handler advance for every identifier: it
  puts the id into the path unencoded, so for the item stored as \<open>B2#x\<close> the patch
  arrives at item \<open>B2\<close>, the item stays unbilled and the status stays Billing.
\<close>

theorem billing_auto_advance_counterexample:
  "stored_status demo_db ''P1'' = Some (Some status_Billing)
   \<and> map b_isBilled (billing_of demo_db ''P1'') = [1, 0]
   \<and> map b_isBilled (billing_of (fst (patch_billing_item demo_db ''B2''
         \<lparr>bp_isBilled = Some True, bp_isPaid = None\<rparr>)) ''P1'') = [1, 1]
   \<and> stored_status (fst (patch_billing_item demo_db ''B2''
         \<lparr>bp_isBilled = Some True, bp_isPaid = None\<rparr>)) ''P1'' = Some (Some status_Billing)
   \<and> stored_status hash_db ''P1'' = Some (Some status_Billing)
   \<and> map b_id (billing_of hash_db ''P1'') = [Some ''B1'', Some ''B2#x'']
   \<and> map b_isBilled (billing_of hash_db ''P1'') = [1, 0]
   \<and> on_patch sample_router (''/api/billing_items/'' @ ''B2#x'') = PatchBillingItemsId ''B2''
   \<and> map b_isBilled (billing_of (handleBillingItemUpdate sample_router hash_db ''P1'' ''B2#x''
         \<lparr>bp_isBilled = Some True, bp_isPaid = None\<rparr>) ''P1'') = [1, 0]
   \<and> stored_status (handleBillingItemUpdate sample_router hash_db ''P1'' ''B2#x''
         \<lparr>bp_isBilled = Some True, bp_isPaid = None\<rparr>) ''P1'' = Some (Some status_Billing)"
  by code_simp

text \<open>
  Claim C1, amended. Let the identifiers of a stored project and of a billing item reach
  the server's routes unchanged from the paths the client builds with them. When the
  project's status is
  Billing and every other billing item of the project is billed already, setting the
  item's billed flag to true through the client's \<open>handleBillingItemUpdate\<close> leaves the
  project in status Payment-In; when the status is not Billing, no update of a billing
  item through the handler changes it. The server's \<^verbatim>\<open>PATCH /api/billing_items/:id\<close>
  by itself never changes the status of a project.
\<close>

theorem billing_auto_advance:
  assumes item: "on_patch net (''/api/billing_items/'' @ iid) = PatchBillingItemsId iid"
    and proj: "on_get net (''/api/projects/'' @ pid) = GetProjectsId pid"
    and status: "on_patch net (''/api/projects/'' @ pid) = PatchProjectsId pid"
    and stored: "stored_status d pid = Some st"
  shows "(st = Some status_Billing
          \<and> (\<forall>r\<in>set (billing_of d pid). b_id r \<noteq> Some iid \<longrightarrow> b_isBilled r \<noteq> 0)
          \<longrightarrow> stored_status (handleBillingItemUpdate net d pid iid
                  \<lparr>bp_isBilled = Some True, bp_isPaid = paid\<rparr>) pid
              = Some (Some status_PaymentIn))
       \<and> (st \<noteq> Some status_Billing
          \<longrightarrow> stored_status (handleBillingItemUpdate net d pid iid u) pid = Some st)
       \<and> stored_status (fst (patch_billing_item d i u)) q = stored_status d q"
proof -
  obtain p where p: "find (\<lambda>p. p_id p = Some pid) (projects d) = Some p" and st: "p_status p = st"
    using stored by (auto simp: stored_status_def)
  have keep: "\<And>v. stored_status (fst (patch_billing_item d iid v)) pid = Some st"
    using stored by (simp add: patch_billing_item_status)
  note found = handleBillingItemUpdate_found [OF item proj p]
  have first: "stored_status (handleBillingItemUpdate net d pid iid \<lparr>bp_isBilled = Some True, bp_isPaid = paid\<rparr>) pid
        = Some (Some status_PaymentIn)"
    if "st = Some status_Billing"
      and "\<forall>r\<in>set (billing_of d pid). b_id r \<noteq> Some iid \<longrightarrow> b_isBilled r \<noteq> 0"
  proof -
    let ?u = "\<lparr>bp_isBilled = Some True, bp_isPaid = paid\<rparr>"
    have store: "billing_items (fst (patch_billing_item d iid ?u)) =
        map (\<lambda>r. if b_id r = Some iid
               then r\<lparr>b_isBilled := flag True,
                      b_isPaid := (case paid of None \<Rightarrow> b_isPaid r | Some v \<Rightarrow> flag v)\<rparr>
               else r) (billing_items d)"
      by (simp add: patch_billing_item_store cong: if_cong)
    have "list_all (\<lambda>r. b_isBilled r \<noteq> 0)
            (filter (\<lambda>r. b_projectId r = Some pid) (billing_items (fst (patch_billing_item d iid ?u))))"
      unfolding store all_billed_after_patch using that(2) by (simp add: billing_of_def)
    then have "handleBillingItemUpdate net d pid iid ?u
        = handleStatusUpdate net (fst (patch_billing_item d iid ?u)) pid status_PaymentIn"
      using that(1) st by (simp add: found Let_def)
    then show ?thesis
      by (simp add: handleStatusUpdate_status [OF status] keep)
  qed
  have second: "stored_status (handleBillingItemUpdate net d pid iid u) pid = Some st"
    if "st \<noteq> Some status_Billing"
  proof -
    have "handleBillingItemUpdate net d pid iid u = fst (patch_billing_item d iid u)"
      using that st by (simp add: found Let_def)
    then show ?thesis by (simp add: keep)
  qed
  from first second patch_billing_item_status [of d i u q] show ?thesis by blast
qed

theorem billing_auto_advance_witness:
  "stored_status demo_db ''P1'' = Some (Some status_Billing)
   \<and> stored_status (handleBillingItemUpdate sample_router demo_db ''P1'' ''B2''
         \<lparr>bp_isBilled = Some True, bp_isPaid = None\<rparr>) ''P1'' = Some (Some status_PaymentIn)
   \<and> stored_status demo_db ''P2'' = Some (Some status_Estimate)
   \<and> stored_status (handleBillingItemUpdate sample_router demo_db ''P2'' ''B3''
         \<lparr>bp_isBilled = Some True, bp_isPaid = None\<rparr>) ''P2'' = Some (Some status_Estimate)"
proof -
  have i1: "on_patch sample_router (''/api/billing_items/'' @ ''B2'') = PatchBillingItemsId ''B2''"
    by code_simp
  have g1: "on_get sample_router (''/api/projects/'' @ ''P1'') = GetProjectsId ''P1''"
    by code_simp
  have p1: "on_patch sample_router (''/api/projects/'' @ ''P1'') = PatchProjectsId ''P1''"
    by code_simp
  have i2: "on_patch sample_router (''/api/billing_items/'' @ ''B3'') = PatchBillingItemsId ''B3''"
    by code_simp
  have g2: "on_get sample_router (''/api/projects/'' @ ''P2'') = GetProjectsId ''P2''"
    by code_simp
  have p2: "on_patch sample_router (''/api/projects/'' @ ''P2'') = PatchProjectsId ''P2''"
    by code_simp
  have h1: "stored_status demo_db ''P1'' = Some (Some status_Billing)"
    by (simp add: stored_status_def demo_db_def project_with_def)
  have others: "\<forall>r\<in>set (billing_of demo_db ''P1''). b_id r \<noteq> Some ''B2'' \<longrightarrow> b_isBilled r \<noteq> 0"
    by (simp add: billing_of_def demo_db_def billing_with_def)
  have h2: "stored_status demo_db ''P2'' = Some (Some status_Estimate)"
    by (simp add: stored_status_def demo_db_def project_with_def)
  have ne: "Some status_Estimate \<noteq> Some status_Billing"
    by (simp add: status_Estimate_def status_Billing_def)
  from billing_auto_advance [OF i1 g1 p1 h1, where paid = None] others
  have a: "stored_status (handleBillingItemUpdate sample_router demo_db ''P1'' ''B2''
         \<lparr>bp_isBilled = Some True, bp_isPaid = None\<rparr>) ''P1'' = Some (Some status_PaymentIn)"
    by blast
  from billing_auto_advance [OF i2 g2 p2 h2,
      where u = "\<lparr>bp_isBilled = Some True, bp_isPaid = None\<rparr>"] ne
  have b: "stored_status (handleBillingItemUpdate sample_router demo_db ''P2'' ''B3''
         \<lparr>bp_isBilled = Some True, bp_isPaid = None\<rparr>) ''P2'' = Some (Some status_Estimate)"
    by blast
  from h1 a h2 b show ?thesis by blast
qed

section \<open>C7: the domain of the status column\<close>

lemma run_def2: "fst (run st s) = (case st s of Inl e \<Rightarrow> s | Inr s' \<Rightarrow> s')"
  by (simp add: run_def split: sum.split)

lemma projects_run_insertStaff: "projects (fst (run (insertStaff r) d)) = projects d"
  by (simp add: run_def2 insertStaff_def)

lemma projects_run_insertBilling: "projects (fst (run (insertBilling r) d)) = projects d"
  by (simp add: run_def2 insertBilling_def)

lemma projects_run_insertOutbound: "projects (fst (run (insertOutbound r) d)) = projects d"
  by (simp add: run_def2 insertOutbound_def)

lemma projects_post_projects_block:
  "projects (fst (post_projects_block b d)) = projects (fst (run (insertProject (new_project b)) d))"
proof -
  have staff: "\<And>d. projects (fst (case constructionStaff b of None \<Rightarrow> (d, None)
        | Some ss \<Rightarrow> for_each (\<lambda>staff. run (insertStaff (staff_row_of (sj_id staff) (rq_id b) staff))) ss d))
      = projects d"
    by (cases "constructionStaff b")
       (simp_all add: for_each_keeps [where g = projects] projects_run_insertStaff)
  have billing: "\<And>d. projects (fst (case billingItems b of None \<Rightarrow> (d, None)
        | Some bs \<Rightarrow> for_each (\<lambda>bill. run (insertBilling (billing_row_of (bj_id bill) (rq_id b) bill 0 0))) bs d))
      = projects d"
    by (cases "billingItems b")
       (simp_all add: for_each_keeps [where g = projects] projects_run_insertBilling)
  have outbound: "\<And>d. projects (fst (case outboundPayments b of None \<Rightarrow> (d, None)
        | Some ps \<Rightarrow> for_each (\<lambda>payment. run (insertOutbound (outbound_row_of (oj_id payment) (rq_id b) payment 0))) ps d))
      = projects d"
    by (cases "outboundPayments b")
       (simp_all add: for_each_keeps [where g = projects] projects_run_insertOutbound)
  show ?thesis
    unfolding post_projects_block_def
    by (simp add: and_then_keeps [where g = projects] staff billing outbound)
qed

lemma projects_post_projects:
  "projects (fst (post_projects d b)) = projects d
   \<or> projects (fst (post_projects d b)) = projects d @ [new_project b]"
proof -
  have "projects (fst (run (insertProject (new_project b)) d)) = projects d
      \<or> projects (fst (run (insertProject (new_project b)) d)) = projects d @ [new_project b]"
    by (simp add: run_def2 insertProject_def)
  then have "projects (fst (post_projects_block b d)) = projects d
      \<or> projects (fst (post_projects_block b d)) = projects d @ [new_project b]"
    by (simp add: projects_post_projects_block)
  then show ?thesis
    by (cases "post_projects_block b d"; cases "snd (post_projects_block b d)")
       (auto simp add: post_projects_def transaction_def)
qed

lemma statuses_valid_update_project:
  assumes "statuses_valid d" and "\<And>p. valid_status (p_status p) \<Longrightarrow> valid_status (p_status (f p))"
  shows "statuses_valid (update_project pid f d)"
  using assms
  by (auto simp add: statuses_valid_def update_project_def update_where_def list_all_iff)

lemma statuses_valid_set_status:
  assumes "statuses_valid d" and "valid_status st"
  shows "statuses_valid (update_project pid (\<lambda>p. p\<lparr>p_status := st\<rparr>) d)"
  using assms
  by (auto simp add: statuses_valid_def update_project_def update_where_def list_all_iff)

lemma statuses_valid_step:
  assumes "statuses_valid d" and "\<And>x p. p_status (f x p) = p_status p"
  shows "statuses_valid (case v of None \<Rightarrow> d | Some x \<Rightarrow> update_project pid (f x) d)"
  using assms by (cases v) (simp_all add: statuses_valid_update_project)

lemma statuses_valid_patch_project:
  assumes "statuses_valid d" and "sends_valid_status (PatchProject pid b)"
  shows "statuses_valid (fst (patch_project d pid b))"
proof -
  have first: "statuses_valid (case pt_status b of None \<Rightarrow> d
      | Some v \<Rightarrow> update_project pid (\<lambda>p. p\<lparr>p_status := Some v\<rparr>) d)"
    using assms by (cases "pt_status b") (simp_all add: statuses_valid_set_status)
  show ?thesis
    unfolding patch_project_def Let_def fst_conv
    apply (rule statuses_valid_step [rotated], simp)
    apply (rule statuses_valid_step [rotated], simp)
    apply (rule statuses_valid_step [rotated], simp)
    apply (rule statuses_valid_step [rotated], simp)
    apply (rule statuses_valid_step [rotated], simp)
    apply (rule statuses_valid_step [rotated], simp)
    apply (rule first)
    done
qed

lemma statuses_valid_post_projects:
  assumes "statuses_valid d" and "sends_valid_status (PostProjects b)"
  shows "statuses_valid (fst (post_projects d b))"
  using assms projects_post_projects [of d b]
  by (auto simp: statuses_valid_def new_project_def)

lemma statuses_valid_put_project:
  assumes "statuses_valid d" and "sends_valid_status (PutProject fresh pid b)"
  shows "statuses_valid (fst (put_project fresh d pid b))"
proof -
  have "statuses_valid (updateProject pid b d)"
    using assms unfolding updateProject_def
    by (intro statuses_valid_update_project) simp_all
  with assms(1) projects_put_project [of fresh d pid b] show ?thesis
    by (auto simp: statuses_valid_def)
qed

lemma statuses_valid_delete_project:
  assumes "statuses_valid d"
  shows "statuses_valid (fst (delete_project d pid))"
  using assms
  by (simp add: statuses_valid_def delete_project_def deleteProjectRow_def delete_where_def
        list_all_iff)

lemma projects_patch_billing_item: "projects (fst (patch_billing_item d iid b)) = projects d"
  by (simp add: patch_billing_item_store)

lemma projects_patch_outbound_payment: "projects (fst (patch_outbound_payment d iid b)) = projects d"
  by (simp add: patch_outbound_payment_def Let_def split: option.split)

lemma projects_post_file: "projects (fst (post_file d pid file)) = projects d"
  by (simp add: post_file_def insertFile_def Let_def split: option.split)

lemma projects_delete_file: "projects (fst (delete_file d fid)) = projects d"
  by (simp add: delete_file_def split: option.split)

lemma projects_post_users: "projects (fst (post_users d b)) = projects d"
  by (simp add: post_users_def insertUser_def)

lemma projects_put_user: "projects (fst (put_user d uid b)) = projects d"
  by (simp add: put_user_def Let_def)

lemma projects_delete_user: "projects (fst (delete_user d uid)) = projects d"
  by (simp add: delete_user_def)

lemma statuses_valid_handle:
  assumes "statuses_valid d" and "sends_valid_status c"
  shows "statuses_valid (fst (handle d c))"
proof (cases c)
  case (PostProjects b)
  with assms show ?thesis by (simp add: statuses_valid_post_projects)
next
  case (PatchProject pid b)
  with assms show ?thesis by (simp only: handle.simps statuses_valid_patch_project)
next
  case (PutProject fresh pid b)
  with assms show ?thesis by (simp add: statuses_valid_put_project)
next
  case (DeleteProject pid)
  with assms show ?thesis by (simp add: statuses_valid_delete_project)
next
  case (PatchBillingItem iid b)
  with assms show ?thesis by (simp add: statuses_valid_def projects_patch_billing_item)
next
  case (PatchOutboundPayment iid b)
  with assms show ?thesis by (simp add: statuses_valid_def projects_patch_outbound_payment)
next
  case (PostFile pid f)
  with assms show ?thesis by (simp add: statuses_valid_def projects_post_file)
next
  case (DeleteFile fid)
  with assms show ?thesis by (simp add: statuses_valid_def projects_delete_file)
next
  case (PostUsers b)
  with assms show ?thesis by (simp add: statuses_valid_def projects_post_users)
next
  case (PutUser uid b)
  with assms show ?thesis by (simp add: statuses_valid_def projects_put_user)
next
  case (DeleteUser uid)
  with assms show ?thesis by (simp add: statuses_valid_def projects_delete_user)
qed

text \<open>
  Claim C7 says that no operation can store a status outside the seven values. The server
  stores the status it is sent: at the sample store, whose statuses are all among the
  seven, a status patch carrying \<open>Done\<close> leaves project \<open>P1\<close> with the status \<open>Done\<close>,
  and a full-replace update whose body has no status leaves \<open>P2\<close> with the status
  \<^verbatim>\<open>NULL\<close>.
\<close>

theorem status_domain_counterexample:
  "statuses_valid demo_db
   \<and> stored_status (serve demo_db [PatchProject ''P1'' (no_patch\<lparr>pt_status := Some ''Done''\<rparr>)]) ''P1''
       = Some (Some ''Done'')
   \<and> \<not> valid_status (Some ''Done'')
   \<and> \<not> statuses_valid (serve demo_db [PatchProject ''P1'' (no_patch\<lparr>pt_status := Some ''Done''\<rparr>)])
   \<and> stored_status (serve demo_db
         [PutProject sample_fresh ''P2'' ((body_with status_Order [] [] [])\<lparr>rq_status := None\<rparr>)]) ''P2''
       = Some None
   \<and> \<not> statuses_valid (serve demo_db
         [PutProject sample_fresh ''P2'' ((body_with status_Order [] [] [])\<lparr>rq_status := None\<rparr>)])"
  by code_simp

text \<open>
  Claim C7, amended. When every stored project has one of the seven status values, then
  after every sequence of API requests in which every project creation and every
  full-replace update carries one of the seven values as its status, and every project
  patch carries one of the seven values or no status, every stored project has one of
  the seven status values.
\<close>

theorem statuses_stay_valid:
  assumes "statuses_valid d" and "list_all sends_valid_status cs"
  shows "statuses_valid (serve d cs)"
  using assms
proof (induction cs arbitrary: d)
  case Nil
  then show ?case by simp
next
  case (Cons c cs)
  from Cons.prems have "statuses_valid (fst (handle d c))"
    by (simp add: statuses_valid_handle)
  with Cons show ?case by simp
qed

theorem statuses_stay_valid_witness:
  "statuses_valid demo_db
   \<and> list_all sends_valid_status
        [PostProjects ((body_with status_Estimate [] [] [])\<lparr>rq_id := Some ''P3''\<rparr>),
         PatchProject ''P1'' (no_patch\<lparr>pt_status := Some status_PaymentIn\<rparr>),
         PutProject sample_fresh ''P2'' (body_with status_Order [] [] []),
         DeleteProject ''P1'']
   \<and> statuses_valid (serve demo_db
        [PostProjects ((body_with status_Estimate [] [] [])\<lparr>rq_id := Some ''P3''\<rparr>),
         PatchProject ''P1'' (no_patch\<lparr>pt_status := Some status_PaymentIn\<rparr>),
         PutProject sample_fresh ''P2'' (body_with status_Order [] [] []),
         DeleteProject ''P1''])"
proof -
  let ?cs = "[PostProjects ((body_with status_Estimate [] [] [])\<lparr>rq_id := Some ''P3''\<rparr>),
         PatchProject ''P1'' (no_patch\<lparr>pt_status := Some status_PaymentIn\<rparr>),
         PutProject sample_fresh ''P2'' (body_with status_Order [] [] []),
         DeleteProject ''P1'']"
  have h1: "statuses_valid demo_db" by code_simp
  have h2: "list_all sends_valid_status ?cs" by code_simp
  from statuses_stay_valid [OF h1 h2] h1 h2 show ?thesis by simp
qed

section \<open>C4: the progress flags\<close>



subsection \<open>Requests that leave the rows of an item as they are\<close>
















subsection \<open>The full-replace update and the rows of other projects\<close>





subsection \<open>The flag patches and the rows of an item\<close>









section \<open>C2: the children after a full-replace update\<close>


lemma length_assign: "length (assign fresh n ids) = length ids"
  by (induction ids arbitrary: n) (simp_all split: prod.split)

















end
